theory Spec2Isabelle
  imports Main "HOL-Library.Word" "HOL-Library.Sublist"
begin

unbundle bit_operations_syntax

section \<open>Data model of Decrypt.cpp\<close>

text \<open>
  A \<open>std::string\<close> holding file content, a key or a hash is a list of 8-bit characters.
  \<open>userid_t\<close> and \<open>uint32_t\<close> are 32-bit words; a C \<open>int\<close> is a 32-bit word read
  through \<open>sint\<close> where the source compares it as a signed number.
\<close>

type_synonym bytes = string
type_synonym userid_t = "32 word"

definition NUL :: char where
  "NUL = CHR 0x00"

text \<open>
  The source reports every failure as \<open>false\<close> (or as the empty string) after printing a
  message. The model tags each failing return with a value of \<open>error\<close>: the kinds of the
  specification's error table where the table names the return site, a name of its own
  otherwise. \<open>UndefinedBehaviour\<close> stands for the places where the C++ source reads past
  the end of a buffer, dereferences a null pointer or uses an uninitialised length.
  \<open>CryptoError\<close> is the kind of the specification that no return site of the source gives.
\<close>

datatype error =
    BlobMissing
  | BlobCorrupt
  | KdfError
  | OutOfMemory
  | UndefinedBehaviour
  | HardwareUnavailable
  | WeaverVerifyFailed
  | NoPasswordHandle
  | CredentialWrong
  | RetryAfter int
  | KeyRotated
  | BeginOperationFailed
  | EmptySecret
  | CeUnlockFailed
  | PrepareStorageFailed
  | UserIdTooBig
  | UnknownPasswordType
  | KeyFileMissing
  | IoError
  | CryptoError

datatype service = Weaver | GatekeeperAidl | GatekeeperHidl | Keystore2 | Authorization

text \<open>What the program does to the world outside, in the order it does it.\<close>

datatype event =
    PathExists string
  | ReadFile string
  | CopySqliteDb
  | IsDeclared service
  | Lookup service
  | WeaverGetKeySize
  | WeaverVerify "32 word" bytes
  | GkVerify userid_t bytes bytes
  | AddAuthToken bytes
  | StartThreadPool
  | KsGetKeyEntry string
  | KsCreateOperation string bytes
  | KsFinish bytes
  | UnlockCE userid_t bytes
  | PrepareUserStorage userid_t

text \<open>\<open>struct password_data_struct\<close> and \<open>struct weaver_data_struct\<close>.\<close>

record password_data_struct =
  password_type :: "32 word"
  scryptN :: "8 word"
  scryptR :: "8 word"
  scryptP :: "8 word"
  salt_len :: "32 word"
  salt :: bytes
  handle_len :: "32 word"
  password_handle :: bytes

record weaver_data_struct =
  version :: "8 word"
  slot :: "32 word"

text \<open>Answers of the hardware services, as the source reads them.\<close>

record aidl_verify_response =
  statusCode :: int
  timeoutMs :: int
  hardwareAuthToken :: bytes

record hidl_gatekeeper_response =
  code :: int
  timeout :: int
  data :: bytes

datatype GKResponse = GkOk bytes | GkRetry int | GkError

datatype key_entry_result = KeyNotFound | KeyEntryFailure | KeyEntry

datatype finish_result = FinishFailed | FinishNoOutput | FinishOutput bytes

text \<open>
  Everything the source takes from outside itself: the file system, the services, the
  cryptographic primitives of the libraries, the allocator, the byte order of the host and
  the indeterminate content of the local array \<open>password_token\<close> before it is written.
  \<open>getHandle\<close> and \<open>getAlias\<close> are the two methods of \<open>KeystoreInfo\<close>, the
  three weaver fields are the class \<open>Weaver\<close> (its construction, \<open>GetKeySize\<close> and
  \<open>WeaverVerify\<close>) and \<open>HashPassword\<close> is the helper of that name: all are declared in
  headers that are missing, and are taken as they are called. A service
  or a file answers the same way each time it is asked the same thing.
  \<open>stat_size p\<close> is the size reported by \<open>stat\<close>, \<open>None\<close> when \<open>stat\<close> (or
  \<open>pathExists\<close>) fails; \<open>read_file p\<close> is what \<open>ReadFileToString\<close> gives, \<open>None\<close>
  when it returns false. \<open>ks_createOperation\<close> is given the auth tokens added to the
  authorization service before the call. \<open>aes_256_gcm_update\<close> is the output of
  \<open>EVP_DecryptUpdate\<close> and \<open>aes_256_gcm_final\<close> the verdict of \<open>EVP_DecryptFinal_ex\<close>
  for a key, a nonce, an input and an expected tag.
\<close>

record world =
  host_big_endian :: bool
  uninit_password_token :: bytes
  malloc_ok :: "nat \<Rightarrow> bool"
  stat_size :: "string \<Rightarrow> nat option"
  read_file :: "string \<Rightarrow> bytes option"
  getHandle :: "userid_t \<Rightarrow> string"
  getAlias :: "string \<Rightarrow> string"
  crypto_scrypt :: "bytes \<Rightarrow> bytes \<Rightarrow> 32 word \<Rightarrow> 32 word \<Rightarrow> 32 word \<Rightarrow> bytes option"
  SHA512 :: "bytes \<Rightarrow> bytes"
  SP800_108_HMAC_SHA256 :: "bytes \<Rightarrow> bytes \<Rightarrow> bytes \<Rightarrow> bytes"
  HashPassword :: "bytes \<Rightarrow> bytes"
  aes_256_gcm_update :: "bytes \<Rightarrow> bytes \<Rightarrow> bytes \<Rightarrow> bytes"
  aes_256_gcm_final :: "bytes \<Rightarrow> bytes \<Rightarrow> bytes \<Rightarrow> bytes \<Rightarrow> bool"
  weaver_service :: bool
  weaver_GetKeySize :: "32 word option"
  weaver_WeaverVerify :: "32 word \<Rightarrow> bytes \<Rightarrow> bytes option"
  gk_aidl_declared :: bool
  gk_aidl_device :: bool
  gk_aidl_verify :: "userid_t \<Rightarrow> bytes \<Rightarrow> bytes \<Rightarrow> aidl_verify_response"
  gk_hidl_device :: bool
  gk_hidl_verify :: "userid_t \<Rightarrow> bytes \<Rightarrow> bytes \<Rightarrow> hidl_gatekeeper_response option"
  authorization_service :: bool
  keystore_service :: bool
  ks_getKeyEntry :: "string \<Rightarrow> key_entry_result"
  ks_createOperation :: "bytes list \<Rightarrow> string \<Rightarrow> bytes \<Rightarrow> bool"
  ks_finish :: "string \<Rightarrow> bytes \<Rightarrow> bytes \<Rightarrow> finish_result"
  fscrypt_unlock_ce_storage :: "userid_t \<Rightarrow> bytes \<Rightarrow> bool"
  fscrypt_prepare_user_storage :: "userid_t \<Rightarrow> bool"

subsection \<open>Results with a trace\<close>

type_synonym 'a io = "(error + 'a) \<times> event list"

definition ok :: "'a \<Rightarrow> 'a io" where
  "ok x = (Inr x, [])"

definition fail :: "error \<Rightarrow> 'a io" where
  "fail e = (Inl e, [])"

definition emit :: "event list \<Rightarrow> 'a io \<Rightarrow> 'a io" where
  "emit evs m = (fst m, evs @ snd m)"

definition and_then :: "'a io \<Rightarrow> ('a \<Rightarrow> 'b io) \<Rightarrow> 'b io" where
  "and_then m k = (case fst m of Inl e \<Rightarrow> (Inl e, snd m) | Inr x \<Rightarrow> emit (snd m) (k x))"

subsection \<open>Memory, integers and formatting\<close>

text \<open>
  \<open>std::string::data()\<close> points at the characters followed by one NUL; \<open>peek s off n\<close>
  is the \<open>n\<close> bytes at offset \<open>off\<close> of that buffer, \<open>None\<close> when the read leaves it.
\<close>

definition peek :: "bytes \<Rightarrow> nat \<Rightarrow> nat \<Rightarrow> bytes option" where
  "peek s off n = (if off + n \<le> Suc (length s) then Some (take n (drop off (s @ [NUL]))) else None)"

definition word_le :: "bytes \<Rightarrow> 32 word" where
  "word_le bs = foldr (\<lambda>c acc. of_char c + 256 * acc) bs 0"

text \<open>\<open>*intptr\<close>: four bytes read as an \<open>int\<close> in the byte order of the host.\<close>

definition load_int :: "world \<Rightarrow> bytes \<Rightarrow> 32 word" where
  "load_int w bs = (if host_big_endian w then word_le (rev bs) else word_le bs)"

text \<open>
  Modelled from the spec: \<open>endianswap\<close> is declared in a header that is missing. The
  specification has the integers of \<open>.pwd\<close> big-endian on disk and the source calls
  \<open>endianswap\<close> on each after reading it in host order: a reversal of the four bytes.
\<close>

definition endianswap :: "32 word \<Rightarrow> 32 word" where
  "endianswap x =
     push_bit 24 (x AND 0xFF) OR push_bit 8 (x AND 0xFF00) OR (drop_bit 8 x AND 0xFF00) OR drop_bit 24 x"

text \<open>An \<open>int\<close> converted to \<open>size_t\<close> (64 bits): a negative length becomes a huge one.\<close>

definition size_t_of_int :: "32 word \<Rightarrow> nat" where
  "size_t_of_int x = (if sint x < 0 then nat (2 ^ 64 + sint x) else nat (sint x))"

fun digits :: "nat \<Rightarrow> string" where
  "digits n = (if n < 10 then [''0123456789'' ! n]
               else digits (n div 10) @ [''0123456789'' ! (n mod 10)])"

declare digits.simps [simp del]

text \<open>\<open>sprintf\<close> with \<open>%d\<close> or \<open>%i\<close> of a \<open>userid_t\<close>: the 32 bits printed as a signed number.\<close>

definition format_d :: "userid_t \<Rightarrow> string" where
  "format_d u = (if sint u < 0 then ''-'' @ digits (nat (- sint u)) else digits (nat (sint u)))"

definition hex_encode :: "bytes \<Rightarrow> bytes" where
  "hex_encode bs =
     concat (map (\<lambda>c. [''0123456789abcdef'' ! ((of_char c :: nat) div 16),
                        ''0123456789abcdef'' ! ((of_char c :: nat) mod 16)]) bs)"

text \<open>\<open>memcpy(dst, src, len)\<close> into the front of an array that keeps its other bytes.\<close>

definition memcpy_front :: "bytes \<Rightarrow> bytes \<Rightarrow> bytes" where
  "memcpy_front dst src = src @ drop (length src) dst"

definition path_exists :: "world \<Rightarrow> string \<Rightarrow> bool" where
  "path_exists w p = (stat_size w p \<noteq> None)"

subsection \<open>Constants and helpers of HashPassword.h\<close>

text \<open>
  Modelled from the spec: the personalisation labels and the helpers
  \<open>PersonalizedHashBinary\<close>, \<open>PersonalizedHash\<close> and \<open>PersonalizedHashSP800\<close> are
  declared in HashPassword.h, which is missing. The specification gives
  the labels, \<open>Personalize(label, data) = SHA-512(pad_128(label) || data)\<close> (64 bytes),
  the string form of it as its hex encoding (the case of the digits is not given; lower case
  here), and the SP800-108 variant as a key derivation of the library. The source checks
  the binary helper's result for a null pointer, which the model gives when the allocation
  of the digest fails.
\<close>

definition PERSONALISATION_APPLICATION_ID :: string where
  "PERSONALISATION_APPLICATION_ID = ''application-id''"

definition PERSONALIZATION_FBE_KEY :: string where
  "PERSONALIZATION_FBE_KEY = ''fbe-key''"

definition PERSONALISATION_CONTEXT :: string where
  "PERSONALISATION_CONTEXT = ''fbe-key-context''"

definition PERSONALISATION_SECDISCARDABLE :: string where
  "PERSONALISATION_SECDISCARDABLE = ''secdiscardable-transform''"

definition PERSONALISATION_WEAVER_KEY :: string where
  "PERSONALISATION_WEAVER_KEY = ''weaver-key''"

definition PERSONALISATION_WEAVER_PASSWORD :: string where
  "PERSONALISATION_WEAVER_PASSWORD = ''weaver-pwd''"

definition PERSONALIZATION_USER_GK_AUTH :: string where
  "PERSONALIZATION_USER_GK_AUTH = ''user-gk-authentication''"

definition SHA512_DIGEST_LENGTH :: nat where
  "SHA512_DIGEST_LENGTH = 64"

definition PASSWORD_TOKEN_SIZE :: nat where
  "PASSWORD_TOKEN_SIZE = 32"

definition pad_128 :: "string \<Rightarrow> bytes" where
  "pad_128 label = label @ replicate (128 - length label) NUL"

definition Personalize :: "world \<Rightarrow> string \<Rightarrow> bytes \<Rightarrow> bytes" where
  "Personalize w label d = SHA512 w (pad_128 label @ d)"

definition PersonalizedHashBinary :: "world \<Rightarrow> string \<Rightarrow> bytes \<Rightarrow> bytes option" where
  "PersonalizedHashBinary w label d =
     (if malloc_ok w SHA512_DIGEST_LENGTH then Some (Personalize w label d) else None)"

definition PersonalizedHash :: "world \<Rightarrow> string \<Rightarrow> bytes \<Rightarrow> bytes" where
  "PersonalizedHash w label d = hex_encode (Personalize w label d)"

definition PersonalizedHashSP800 :: "world \<Rightarrow> string \<Rightarrow> string \<Rightarrow> bytes \<Rightarrow> bytes" where
  "PersonalizedHashSP800 w label context d = SP800_108_HMAC_SHA256 w d label context"

text \<open>
  The status codes of the gatekeeper interfaces, which the source compares against; they
  belong to the hardware interface, not to this repository.
\<close>

definition STATUS_OK :: int where
  "STATUS_OK = 0"

definition ERROR_RETRY_TIMEOUT :: int where
  "ERROR_RETRY_TIMEOUT = - 2"

text \<open>The size of the packed \<open>hw_auth_token_t\<close> the gatekeeper payload is cast to.\<close>

definition HW_AUTH_TOKEN_SIZE :: nat where
  "HW_AUTH_TOKEN_SIZE = 69"

section \<open>Reading the artifacts\<close>

text \<open>The loop of \<open>Get_Spblob_Data\<close> over the zero-padded candidates.\<close>

fun read_first :: "world \<Rightarrow> string list \<Rightarrow> bytes option \<times> event list" where
  "read_first w [] = (None, [])"
| "read_first w (f # fs) =
     (case read_file w f of
        Some d \<Rightarrow> (Some d, [ReadFile f])
      | None \<Rightarrow> (case read_first w fs of (r, evs) \<Rightarrow> (r, ReadFile f # evs)))"

definition Get_Spblob_Data :: "world \<Rightarrow> string \<Rightarrow> string \<Rightarrow> string \<Rightarrow> bytes option \<times> event list" where
  "Get_Spblob_Data w spblob_path handle_str sfx =
     (let file = spblob_path @ handle_str @ sfx in
      if path_exists w file then (read_file w file, [PathExists file, ReadFile file])
      else
        (let file_paths = [spblob_path @ ''0'' @ handle_str @ sfx,
                           spblob_path @ ''00'' @ handle_str @ sfx]
         in case read_first w file_paths of (r, evs) \<Rightarrow> (r, PathExists file # evs)))"

text \<open>The body of \<open>Get_Password_Data\<close> after the file is read.\<close>

definition parse_password_data :: "world \<Rightarrow> bytes \<Rightarrow> error + password_data_struct" where
  "parse_password_data w pwd_data =
     (case peek pwd_data 0 4 of None \<Rightarrow> Inl UndefinedBehaviour | Some b0 \<Rightarrow>
     (case peek pwd_data 4 3 of None \<Rightarrow> Inl UndefinedBehaviour | Some nrp \<Rightarrow>
     (case peek pwd_data 7 4 of None \<Rightarrow> Inl UndefinedBehaviour | Some b1 \<Rightarrow>
     (let ptype = endianswap (load_int w b0);
          slen = endianswap (load_int w b1)
      in if slen = 0 then Inl BlobCorrupt
         else if \<not> malloc_ok w (size_t_of_int slen) then Inl OutOfMemory
         else
          (case peek pwd_data 11 (size_t_of_int slen) of None \<Rightarrow> Inl UndefinedBehaviour | Some s \<Rightarrow>
          (case peek pwd_data (11 + size_t_of_int slen) 4 of None \<Rightarrow> Inl UndefinedBehaviour | Some b2 \<Rightarrow>
          (let hlen = endianswap (load_int w b2);
               pwd = \<lparr>password_type = ptype, scryptN = of_char (nrp ! 0), scryptR = of_char (nrp ! 1),
                      scryptP = of_char (nrp ! 2), salt_len = slen, salt = s,
                      handle_len = hlen, password_handle = []\<rparr>
           in if hlen = 0 then Inr pwd
              else if \<not> malloc_ok w (size_t_of_int hlen) then Inl OutOfMemory
              else
               (case peek pwd_data (15 + size_t_of_int slen) (size_t_of_int hlen) of
                  None \<Rightarrow> Inl UndefinedBehaviour
                | Some h \<Rightarrow> Inr (pwd\<lparr>password_handle := h\<rparr>)))))))))"

definition Get_Password_Data :: "world \<Rightarrow> string \<Rightarrow> string \<Rightarrow> password_data_struct io" where
  "Get_Password_Data w spblob_path handle_str =
     (case Get_Spblob_Data w spblob_path handle_str ''.pwd'' of
        (None, evs) \<Rightarrow> (Inl BlobMissing, evs)
      | (Some pwd_data, evs) \<Rightarrow> (parse_password_data w pwd_data, evs))"

text \<open>
  \<open>Get_Password_Token\<close>: \<open>1 << n\<close> on an \<open>int\<close> is undefined from 32 bits on. The
  pointer \<open>password_token\<close> is never null at the one call.
\<close>

definition Get_Password_Token :: "world \<Rightarrow> password_data_struct \<Rightarrow> bytes \<Rightarrow> error + bytes" where
  "Get_Password_Token w pwd Password =
     (if 32 \<le> unat (scryptN pwd) \<or> 32 \<le> unat (scryptR pwd) \<or> 32 \<le> unat (scryptP pwd)
      then Inl UndefinedBehaviour
      else
        (let N = push_bit (unat (scryptN pwd)) (1 :: 32 word);
             r = push_bit (unat (scryptR pwd)) (1 :: 32 word);
             p = push_bit (unat (scryptP pwd)) (1 :: 32 word)
         in case crypto_scrypt w Password (salt pwd) N r p of
              None \<Rightarrow> Inl KdfError
            | Some password_token \<Rightarrow> Inr password_token))"

text \<open>
  \<open>Get_Weaver_Data\<close>. The slot is read through
  \<open>(const int*)weaver_data.data() + sizeof(unsigned char)\<close>: the cast comes first, so the
  sum moves the \<open>int\<close> pointer by one \<open>int\<close>.
\<close>

definition sizeof_int :: nat where
  "sizeof_int = 4"

definition sizeof_unsigned_char :: nat where
  "sizeof_unsigned_char = 1"

definition Get_Weaver_Data :: "world \<Rightarrow> string \<Rightarrow> string \<Rightarrow> weaver_data_struct io" where
  "Get_Weaver_Data w spblob_path handle_str =
     (let weaver_file = spblob_path @ handle_str @ ''.weaver'' in
      emit [ReadFile weaver_file]
        (case read_file w weaver_file of
           None \<Rightarrow> fail BlobMissing
         | Some weaver_data \<Rightarrow>
             (case peek weaver_data 0 1 of None \<Rightarrow> fail UndefinedBehaviour | Some v \<Rightarrow>
             (case peek weaver_data (sizeof_unsigned_char * sizeof_int) sizeof_int of
                None \<Rightarrow> fail UndefinedBehaviour
              | Some b \<Rightarrow> ok \<lparr>version = of_char (v ! 0), slot = load_int w b\<rparr>))))"

definition Get_Secdis :: "world \<Rightarrow> string \<Rightarrow> string \<Rightarrow> bytes option \<times> event list" where
  "Get_Secdis w spblob_path handle_str = Get_Spblob_Data w spblob_path handle_str ''.secdis''"

definition fakeUid :: "userid_t \<Rightarrow> userid_t" where
  "fakeUid uid = 100000 + uid"

definition Is_Weaver :: "world \<Rightarrow> string \<Rightarrow> string \<Rightarrow> bool \<times> event list" where
  "Is_Weaver w spblob_path handle_str =
     (let weaver_file = spblob_path @ handle_str @ ''.weaver'' in
      (path_exists w weaver_file, [PathExists weaver_file]))"

section \<open>Unwrapping the synthetic password blob\<close>

definition SYNTHETIC_PASSWORD_VERSION_V1 :: "8 word" where
  "SYNTHETIC_PASSWORD_VERSION_V1 = 1"

definition SYNTHETIC_PASSWORD_VERSION_V2 :: "8 word" where
  "SYNTHETIC_PASSWORD_VERSION_V2 = 2"

definition SYNTHETIC_PASSWORD_VERSION_V3 :: "8 word" where
  "SYNTHETIC_PASSWORD_VERSION_V3 = 3"

definition SYNTHETIC_PASSWORD_PASSWORD_BASED :: "8 word" where
  "SYNTHETIC_PASSWORD_PASSWORD_BASED = 0"

text \<open>
  Lines 525 to 578 of \<open>unwrapSyntheticPasswordBlob\<close>: the keystore decrypts the part of
  the blob after the two header bytes and the 12 bytes of nonce. For a file shorter than 14
  bytes \<open>spblob_data.size() - 14\<close> wraps around, at line 537 already, where a string is
  built from that many bytes. The keystore service pointer is used unchecked.
\<close>

definition unwrap_keystore :: "world \<Rightarrow> userid_t \<Rightarrow> bytes list \<Rightarrow> bytes \<Rightarrow> bytes io" where
  "unwrap_keystore w user_id tokens spblob_data =
     (if length spblob_data < 14 then fail UndefinedBehaviour
      else
        (let iv = take 12 (drop 2 spblob_data);
             handle = getHandle w user_id;
             keystore_alias = getAlias w handle;
             cipher_text = drop 14 spblob_data
         in emit [Lookup Keystore2]
             (if \<not> keystore_service w then fail UndefinedBehaviour
              else emit [KsGetKeyEntry keystore_alias]
                (case ks_getKeyEntry w keystore_alias of
                   KeyNotFound \<Rightarrow> fail KeyRotated
                 | KeyEntryFailure \<Rightarrow> fail HardwareUnavailable
                 | KeyEntry \<Rightarrow>
                     emit [KsCreateOperation keystore_alias iv]
                       (if \<not> ks_createOperation w tokens keystore_alias iv
                        then fail BeginOperationFailed
                        else emit [KsFinish cipher_text]
                          (case ks_finish w keystore_alias iv cipher_text of
                             FinishFailed \<Rightarrow> fail HardwareUnavailable
                           | FinishNoOutput \<Rightarrow> fail UndefinedBehaviour
                           | FinishOutput optPlaintext \<Rightarrow> ok optPlaintext))))))"

text \<open>
  Lines 580 to 619: the inner envelope is decrypted with OpenSSL under the first 32 bytes of
  the personalised application id. The whole of the envelope after the nonce, tag included,
  goes through \<open>EVP_DecryptUpdate\<close>, and the last 16 bytes of the output are dropped.
  The tag handed to \<open>EVP_CTRL_GCM_SET_TAG\<close> is a local array that is never written, and
  the result of \<open>EVP_DecryptFinal_ex\<close> is not looked at: \<open>aes_256_gcm_final\<close> does not
  occur below.
\<close>

definition unwrap_inner :: "world \<Rightarrow> bytes \<Rightarrow> bytes \<Rightarrow> error + bytes" where
  "unwrap_inner w application_id keystore_result =
     (let keystore_result_size = length keystore_result in
      if \<not> malloc_ok w keystore_result_size then Inl OutOfMemory
      else if keystore_result_size = 0 then Inl UndefinedBehaviour
      else
        (case PersonalizedHashBinary w PERSONALISATION_APPLICATION_ID application_id of
           None \<Rightarrow> Inl OutOfMemory
         | Some personalized_application_id \<Rightarrow>
             if keystore_result_size < 12 then Inl UndefinedBehaviour
             else
               (let intermediate_iv = take 12 keystore_result;
                    intermediate_cipher_text = drop 12 keystore_result;
                    cipher_size = keystore_result_size - 12;
                    key = take 32 personalized_application_id
                in if \<not> malloc_ok w cipher_size then Inl OutOfMemory
                   else
                     (let out = aes_256_gcm_update w key intermediate_iv intermediate_cipher_text;
                          actual_size = length out
                      in if actual_size < 16 then Inl UndefinedBehaviour
                         else Inr (take (actual_size - 16) out)))))"

text \<open>Lines 622 to 627: the disk decryption key from the decrypted secret.\<close>

definition disk_decryption_secret_key :: "world \<Rightarrow> 8 word \<Rightarrow> bytes \<Rightarrow> bytes" where
  "disk_decryption_secret_key w synthetic_password_version secret_key =
     (if synthetic_password_version = SYNTHETIC_PASSWORD_VERSION_V3
      then PersonalizedHashSP800 w PERSONALIZATION_FBE_KEY PERSONALISATION_CONTEXT secret_key
      else PersonalizedHash w PERSONALIZATION_FBE_KEY secret_key)"

text \<open>
  \<open>unwrapSyntheticPasswordBlob\<close>. The source returns the empty string on every failure;
  \<open>tokens\<close> are the auth tokens this run has added to the authorization service.
\<close>

definition unwrapSyntheticPasswordBlob ::
    "world \<Rightarrow> string \<Rightarrow> string \<Rightarrow> userid_t \<Rightarrow> bytes \<Rightarrow> bytes list \<Rightarrow> bytes io" where
  "unwrapSyntheticPasswordBlob w spblob_path handle_str user_id application_id tokens =
     emit [StartThreadPool]
       (case Get_Spblob_Data w spblob_path handle_str ''.spblob'' of
          (None, evs) \<Rightarrow> (Inl BlobMissing, evs)
        | (Some spblob_data, evs) \<Rightarrow>
            emit evs
              (case peek spblob_data 0 1 of None \<Rightarrow> fail UndefinedBehaviour | Some b0 \<Rightarrow>
               (let synthetic_password_version = (of_char (b0 ! 0) :: 8 word) in
                if synthetic_password_version \<noteq> SYNTHETIC_PASSWORD_VERSION_V2
                   \<and> synthetic_password_version \<noteq> SYNTHETIC_PASSWORD_VERSION_V1
                   \<and> synthetic_password_version \<noteq> SYNTHETIC_PASSWORD_VERSION_V3
                then fail BlobCorrupt
                else
                  (case peek spblob_data 1 1 of None \<Rightarrow> fail UndefinedBehaviour | Some b1 \<Rightarrow>
                   if (of_char (b1 ! 0) :: 8 word) \<noteq> SYNTHETIC_PASSWORD_PASSWORD_BASED
                   then fail BlobCorrupt
                   else if synthetic_password_version = SYNTHETIC_PASSWORD_VERSION_V2
                           \<or> synthetic_password_version = SYNTHETIC_PASSWORD_VERSION_V3
                   then
                     and_then (unwrap_keystore w user_id tokens spblob_data) (\<lambda>keystore_result.
                       (case unwrap_inner w application_id keystore_result of
                          Inl e \<Rightarrow> fail e
                        | Inr secret_key \<Rightarrow>
                            ok (disk_decryption_secret_key w synthetic_password_version secret_key)))
                   else fail BlobCorrupt))))"

text \<open>
  Lines 498 to 632 of \<open>unwrapSyntheticPasswordBlob\<close> on their own: what the function
  does with the content of the \<open>.spblob\<close> file once \<open>Get_Spblob_Data\<close> has given it.
\<close>

definition unwrap_spblob_data :: "world \<Rightarrow> userid_t \<Rightarrow> bytes \<Rightarrow> bytes list \<Rightarrow> bytes \<Rightarrow> bytes io" where
  "unwrap_spblob_data w user_id application_id tokens spblob_data =
     (case peek spblob_data 0 1 of None \<Rightarrow> fail UndefinedBehaviour | Some b0 \<Rightarrow>
      (let synthetic_password_version = (of_char (b0 ! 0) :: 8 word) in
       if synthetic_password_version \<noteq> SYNTHETIC_PASSWORD_VERSION_V2
          \<and> synthetic_password_version \<noteq> SYNTHETIC_PASSWORD_VERSION_V1
          \<and> synthetic_password_version \<noteq> SYNTHETIC_PASSWORD_VERSION_V3
       then fail BlobCorrupt
       else
         (case peek spblob_data 1 1 of None \<Rightarrow> fail UndefinedBehaviour | Some b1 \<Rightarrow>
          if (of_char (b1 ! 0) :: 8 word) \<noteq> SYNTHETIC_PASSWORD_PASSWORD_BASED
          then fail BlobCorrupt
          else if synthetic_password_version = SYNTHETIC_PASSWORD_VERSION_V2
                  \<or> synthetic_password_version = SYNTHETIC_PASSWORD_VERSION_V3
          then
            and_then (unwrap_keystore w user_id tokens spblob_data) (\<lambda>keystore_result.
              (case unwrap_inner w application_id keystore_result of
                 Inl e \<Rightarrow> fail e
               | Inr secret_key \<Rightarrow>
                   ok (disk_decryption_secret_key w synthetic_password_version secret_key)))
          else fail BlobCorrupt)))"

section \<open>Unlocking\<close>

definition Decrypt_CE_storage :: "world \<Rightarrow> userid_t \<Rightarrow> bytes \<Rightarrow> unit io" where
  "Decrypt_CE_storage w user_id secret =
     emit [UnlockCE user_id secret]
       (if \<not> fscrypt_unlock_ce_storage w user_id secret then fail CeUnlockFailed
        else emit [PrepareUserStorage user_id]
          (if \<not> fscrypt_prepare_user_storage w user_id then fail PrepareStorageFailed
           else ok ()))"

definition spblob_path_of :: "userid_t \<Rightarrow> string" where
  "spblob_path_of user_id = ''/data/system_de/'' @ format_d user_id @ ''/spblob/''"

text \<open>The \<open>password_data_struct\<close> of \<open>Decrypt_User_Synth_Pass\<close> before it is filled.\<close>

definition empty_password_data :: password_data_struct where
  "empty_password_data =
     \<lparr>password_type = 0, scryptN = 0, scryptR = 0, scryptP = 0, salt_len = 0, salt = [],
      handle_len = 0, password_handle = []\<rparr>"

text \<open>
  Lines 712 to 727 of \<open>Decrypt_User_Synth_Pass\<close>: the password token. For the default
  password the 16 characters are copied into the front of the local array, whose other
  bytes keep what they held.
\<close>

definition synth_pass_token :: "world \<Rightarrow> string \<Rightarrow> string \<Rightarrow> bytes \<Rightarrow> (password_data_struct \<times> bytes) io" where
  "synth_pass_token w spblob_path handle_str Password =
     (if Password \<noteq> ''!'' then
        and_then (Get_Password_Data w spblob_path handle_str) (\<lambda>pwd.
          (case Get_Password_Token w pwd Password of
             Inl e \<Rightarrow> fail e
           | Inr password_token \<Rightarrow> ok (pwd, password_token)))
      else
        emit [CopySqliteDb]
          (ok (empty_password_data, memcpy_front (uninit_password_token w) ''default-password'')))"

text \<open>Lines 730 to 781: the weaver path, which gives the application id.\<close>

definition synth_pass_weaver :: "world \<Rightarrow> string \<Rightarrow> string \<Rightarrow> bytes \<Rightarrow> bytes io" where
  "synth_pass_weaver w spblob_path handle_str password_token =
     and_then (Get_Weaver_Data w spblob_path handle_str) (\<lambda>wd.
       (case PersonalizedHashBinary w PERSONALISATION_WEAVER_KEY (take PASSWORD_TOKEN_SIZE password_token) of
          None \<Rightarrow> fail OutOfMemory
        | Some weaver_key \<Rightarrow>
            emit [Lookup Weaver]
              (if \<not> weaver_service w then fail HardwareUnavailable
               else emit [WeaverGetKeySize]
                 (case weaver_GetKeySize w of
                    None \<Rightarrow> fail HardwareUnavailable
                  | Some weaver_key_size \<Rightarrow>
                      emit [WeaverVerify (slot wd) weaver_key]
                        (case weaver_WeaverVerify w (slot wd) weaver_key of
                           None \<Rightarrow> fail WeaverVerifyFailed
                         | Some weaver_payload \<Rightarrow>
                             (case PersonalizedHashBinary w PERSONALISATION_WEAVER_PASSWORD weaver_payload of
                                None \<Rightarrow> fail UndefinedBehaviour
                              | Some weaver_secret \<Rightarrow>
                                  ok (take PASSWORD_TOKEN_SIZE password_token
                                      @ take SHA512_DIGEST_LENGTH weaver_secret)))))))"

text \<open>Lines 817 to 848: the gatekeeper of the newer interface; its error answers return.\<close>

definition gk_verify_aidl :: "world \<Rightarrow> userid_t \<Rightarrow> password_data_struct \<Rightarrow> bytes \<Rightarrow> GKResponse io" where
  "gk_verify_aidl w user_id pwd password_token =
     (if sint (handle_len pwd) \<le> 0 then fail NoPasswordHandle
      else
        (case PersonalizedHashBinary w PERSONALIZATION_USER_GK_AUTH (take PASSWORD_TOKEN_SIZE password_token) of
           None \<Rightarrow> fail OutOfMemory
         | Some gk_pwd_token \<Rightarrow>
             emit [GkVerify (fakeUid user_id) (password_handle pwd) gk_pwd_token]
               (let rsp = gk_aidl_verify w (fakeUid user_id) (password_handle pwd) gk_pwd_token in
                if STATUS_OK \<le> statusCode rsp then ok (GkOk (hardwareAuthToken rsp))
                else if statusCode rsp = ERROR_RETRY_TIMEOUT then fail (RetryAfter (timeoutMs rsp))
                else fail CredentialWrong)))"

text \<open>
  Lines 849 to 891: the gatekeeper of the older interface. The callback only records the
  answer; the call returns early when the transport fails and not otherwise.
\<close>

definition gk_verify_hidl :: "world \<Rightarrow> userid_t \<Rightarrow> password_data_struct \<Rightarrow> bytes \<Rightarrow> GKResponse io" where
  "gk_verify_hidl w user_id pwd password_token =
     (if sint (handle_len pwd) \<le> 0 then fail NoPasswordHandle
      else
        (case PersonalizedHashBinary w PERSONALIZATION_USER_GK_AUTH (take PASSWORD_TOKEN_SIZE password_token) of
           None \<Rightarrow> fail OutOfMemory
         | Some gk_pwd_token \<Rightarrow>
             emit [GkVerify (fakeUid user_id) (password_handle pwd) gk_pwd_token]
               (case gk_hidl_verify w (fakeUid user_id) (password_handle pwd) gk_pwd_token of
                  None \<Rightarrow> fail HardwareUnavailable
                | Some rsp \<Rightarrow>
                    ok (if STATUS_OK \<le> code rsp then GkOk (data rsp)
                        else if code rsp = ERROR_RETRY_TIMEOUT then GkRetry (timeout rsp)
                        else GkError))))"

text \<open>
  Lines 892 to 913: an OK answer with a payload is cast to \<open>hw_auth_token_t\<close> and given
  to the authorization service, whose pointer is used though it may be null. The result is
  the list of tokens added.
\<close>

definition add_auth_token :: "world \<Rightarrow> GKResponse \<Rightarrow> bytes list io" where
  "add_auth_token w gkResponse =
     (case gkResponse of
        GkOk payload \<Rightarrow>
          if payload \<noteq> [] then
            (if length payload < HW_AUTH_TOKEN_SIZE then fail UndefinedBehaviour
             else emit [Lookup Authorization]
               (if \<not> authorization_service w then fail UndefinedBehaviour
                else emit [AddAuthToken payload] (ok [payload])))
          else ok []
      | GkRetry t \<Rightarrow> ok []
      | GkError \<Rightarrow> ok [])"

text \<open>Lines 797 to 913: the gatekeeper step of the secdis path.\<close>

definition synth_pass_gatekeeper :: "world \<Rightarrow> userid_t \<Rightarrow> password_data_struct \<Rightarrow> bytes \<Rightarrow> bytes list io" where
  "synth_pass_gatekeeper w user_id pwd password_token =
     emit [IsDeclared GatekeeperAidl]
       (let declared = gk_aidl_declared w;
            aidl_gk_device = (declared \<and> gk_aidl_device w);
            gk_device = (\<not> aidl_gk_device \<and> gk_hidl_device w)
        in emit ((if declared then [Lookup GatekeeperAidl] else [])
                 @ (if \<not> aidl_gk_device then [Lookup GatekeeperHidl] else []))
             (if \<not> aidl_gk_device \<and> \<not> gk_device then fail HardwareUnavailable
              else
                and_then (if aidl_gk_device then gk_verify_aidl w user_id pwd password_token
                          else gk_verify_hidl w user_id pwd password_token)
                  (add_auth_token w)))"

text \<open>Lines 783 to 915: the secdis path, which gives the application id and the tokens added.\<close>

definition synth_pass_secdis ::
    "world \<Rightarrow> userid_t \<Rightarrow> string \<Rightarrow> string \<Rightarrow> bytes \<Rightarrow> password_data_struct \<Rightarrow> bytes \<Rightarrow> (bytes \<times> bytes list) io" where
  "synth_pass_secdis w user_id spblob_path handle_str Password pwd password_token =
     (case Get_Secdis w spblob_path handle_str of
        (None, evs) \<Rightarrow> (Inl BlobMissing, evs)
      | (Some secdis_data, evs) \<Rightarrow>
          emit evs
            (case PersonalizedHashBinary w PERSONALISATION_SECDISCARDABLE secdis_data of
               None \<Rightarrow> fail OutOfMemory
             | Some secdiscardable \<Rightarrow>
                 (let application_id = take PASSWORD_TOKEN_SIZE password_token
                                       @ take SHA512_DIGEST_LENGTH secdiscardable
                  in if Password \<noteq> ''!'' then
                       and_then (synth_pass_gatekeeper w user_id pwd password_token)
                         (\<lambda>tokens. ok (application_id, tokens))
                     else ok (application_id, []))))"

text \<open>Lines 729 to 916: one of the two paths, chosen by \<open>Is_Weaver\<close>.\<close>

definition synth_pass_application_id ::
    "world \<Rightarrow> userid_t \<Rightarrow> string \<Rightarrow> string \<Rightarrow> bytes \<Rightarrow> password_data_struct \<Rightarrow> bytes \<Rightarrow> (bytes \<times> bytes list) io" where
  "synth_pass_application_id w user_id spblob_path handle_str Password pwd password_token =
     (case Is_Weaver w spblob_path handle_str of
        (is_weaver, evs) \<Rightarrow>
          emit evs
            (if is_weaver then
               and_then (synth_pass_weaver w spblob_path handle_str password_token)
                 (\<lambda>application_id. ok (application_id, []))
             else synth_pass_secdis w user_id spblob_path handle_str Password pwd password_token))"

definition Decrypt_User_Synth_Pass :: "world \<Rightarrow> userid_t \<Rightarrow> bytes \<Rightarrow> unit io" where
  "Decrypt_User_Synth_Pass w user_id Password =
     (let spblob_path = spblob_path_of user_id;
          handle_str = getHandle w user_id
      in and_then (synth_pass_token w spblob_path handle_str Password) (\<lambda>(pwd, password_token).
         and_then (synth_pass_application_id w user_id spblob_path handle_str Password pwd password_token)
           (\<lambda>(application_id, tokens).
         and_then (unwrapSyntheticPasswordBlob w spblob_path handle_str user_id application_id tokens)
           (\<lambda>secret.
         if secret = [] then fail EmptySecret
         else Decrypt_CE_storage w user_id secret))))"

section \<open>The entry points\<close>

text \<open>
  \<open>Get_Password_Type\<close>. The result is the type and the file name left in \<open>filename\<close>. A
  failure of \<open>Get_Password_Data\<close> gives type 0. The legacy branch prints the user id into
  a buffer of five characters.
\<close>

definition Get_Password_Type :: "world \<Rightarrow> userid_t \<Rightarrow> string \<Rightarrow> (nat \<times> string) io" where
  "Get_Password_Type w user_id filename =
     (let spblob_path = spblob_path_of user_id in
      emit [PathExists spblob_path]
        (if path_exists w spblob_path then
           (let handle_str = getHandle w user_id in
            case Get_Password_Data w spblob_path handle_str of
              (Inl UndefinedBehaviour, evs) \<Rightarrow> (Inl UndefinedBehaviour, evs)
            | (Inl e, evs) \<Rightarrow> (Inr (0, filename), evs)
            | (Inr pwd, evs) \<Rightarrow>
                (Inr (if password_type pwd = 2 then 1
                      else if password_type pwd = 4 then 1
                      else if password_type pwd = 1 then 2
                      else if password_type pwd = 3 then 3
                      else 0, filename), evs))
         else if user_id \<noteq> 0 \<and> 4 < length (format_d user_id) then fail UndefinedBehaviour
         else
           (let path = (if user_id = 0 then ''/data/system/''
                        else ''/data/system/users/'' @ format_d user_id @ ''/'');
                password_key = path @ ''gatekeeper.password.key'';
                pattern_key = path @ ''gatekeeper.pattern.key''
            in emit [PathExists password_key]
                 (case stat_size w password_key of
                    Some (Suc n) \<Rightarrow> ok (1, password_key)
                  | _ \<Rightarrow>
                      emit [PathExists pattern_key]
                        (case stat_size w pattern_key of
                           Some (Suc n) \<Rightarrow> ok (2, pattern_key)
                         | _ \<Rightarrow> ok (0, ''''))))))"

text \<open>
  Lines 1018 to 1078 of \<open>Decrypt_User\<close>: the legacy flow over the gatekeeper key file.
  \<open>auth_token_len\<close> is written by the callback on an OK answer only and is read after
  the call whatever the answer.
\<close>

definition Decrypt_User_legacy :: "world \<Rightarrow> userid_t \<Rightarrow> bytes \<Rightarrow> string \<Rightarrow> unit io" where
  "Decrypt_User_legacy w user_id Password filename =
     emit [PathExists filename]
       (case stat_size w filename of
          None \<Rightarrow> fail KeyFileMissing
        | Some st_size \<Rightarrow>
            emit [ReadFile filename]
              (case read_file w filename of
                 None \<Rightarrow> fail IoError
               | Some handle \<Rightarrow>
                   emit [Lookup GatekeeperHidl]
                     (if \<not> gk_hidl_device w then fail HardwareUnavailable
                      else
                        (case peek handle 0 st_size of
                           None \<Rightarrow> fail UndefinedBehaviour
                         | Some curPwdHandle \<Rightarrow>
                             emit [GkVerify user_id curPwdHandle Password]
                               (case gk_hidl_verify w user_id curPwdHandle Password of
                                  None \<Rightarrow> fail HardwareUnavailable
                                | Some rsp \<Rightarrow>
                                    if STATUS_OK \<le> code rsp
                                    then Decrypt_CE_storage w user_id (HashPassword w Password)
                                    else fail UndefinedBehaviour)))))"

definition Decrypt_User :: "world \<Rightarrow> userid_t \<Rightarrow> bytes \<Rightarrow> unit io" where
  "Decrypt_User w user_id Password =
     (if 9999 < user_id then fail UserIdTooBig
      else
        and_then (Get_Password_Type w user_id '''') (\<lambda>(ptype, filename).
          (let Default_Password = (Password = ''!'') in
           if ptype = 0 \<and> \<not> Default_Password then fail UnknownPasswordType
           else if Default_Password then
             (case Decrypt_CE_storage w user_id ''!'' of
                (Inl e, evs) \<Rightarrow> emit evs (Decrypt_User_Synth_Pass w user_id Password)
              | (Inr u, evs) \<Rightarrow> (Inr u, evs))
           else
             emit [PathExists ''/data/system_de/0/spblob'']
               (if path_exists w ''/data/system_de/0/spblob''
                then Decrypt_User_Synth_Pass w user_id Password
                else Decrypt_User_legacy w user_id Password filename))))"

section \<open>What the specification says, where it is compared with the source\<close>

text \<open>
  The \<open>.weaver\<close> format of the specification: \<open>u8 version | i32 slot\<close>, the slot in
  the four bytes after the version byte, in host order.
\<close>

definition weaver_data_as_specified :: "world \<Rightarrow> bytes \<Rightarrow> weaver_data_struct" where
  "weaver_data_as_specified w weaver_data =
     \<lparr>version = of_char (weaver_data ! 0), slot = load_int w (take 4 (drop 1 weaver_data))\<rparr>"

text \<open>
  The default password token of the specification: the 16 characters right-padded with NUL
  bytes to 32 bytes.
\<close>

definition default_password_token_as_specified :: bytes where
  "default_password_token_as_specified =
     ''default-password'' @ replicate (32 - length ''default-password'') NUL"

text \<open>
  The resolution of the specification: the first readable file among the name and its two
  zero-padded variants.
\<close>

fun first_readable :: "world \<Rightarrow> string list \<Rightarrow> bytes option" where
  "first_readable w [] = None"
| "first_readable w (f # fs) =
     (case read_file w f of Some d \<Rightarrow> Some d | None \<Rightarrow> first_readable w fs)"

definition artifact_as_specified :: "world \<Rightarrow> string \<Rightarrow> string \<Rightarrow> string \<Rightarrow> bytes option" where
  "artifact_as_specified w spblob_path handle_str sfx =
     first_readable w [spblob_path @ handle_str @ sfx,
                       spblob_path @ ''0'' @ handle_str @ sfx,
                       spblob_path @ ''00'' @ handle_str @ sfx]"

text \<open>
  The resolution as the source does it: the plain name alone when it exists, the two
  zero-padded names otherwise.
\<close>

definition artifact_as_amended :: "world \<Rightarrow> string \<Rightarrow> string \<Rightarrow> string \<Rightarrow> bytes option" where
  "artifact_as_amended w spblob_path handle_str sfx =
     (if path_exists w (spblob_path @ handle_str @ sfx)
      then read_file w (spblob_path @ handle_str @ sfx)
      else first_readable w [spblob_path @ ''0'' @ handle_str @ sfx,
                             spblob_path @ ''00'' @ handle_str @ sfx])"

text \<open>
  Two runs that differ in one part of the world: another weaver service, or other files and
  other answers of \<open>stat\<close>.
\<close>

definition with_weaver_service ::
    "world \<Rightarrow> bool \<Rightarrow> 32 word option \<Rightarrow> (32 word \<Rightarrow> bytes \<Rightarrow> bytes option) \<Rightarrow> world" where
  "with_weaver_service w a b c =
     w\<lparr>weaver_service := a, weaver_GetKeySize := b, weaver_WeaverVerify := c\<rparr>"

definition with_files :: "world \<Rightarrow> (string \<Rightarrow> bytes option) \<Rightarrow> (string \<Rightarrow> nat option) \<Rightarrow> world" where
  "with_files w rf ss = w\<lparr>read_file := rf, stat_size := ss\<rparr>"

section \<open>Kinds of events\<close>

fun is_UnlockCE :: "event \<Rightarrow> bool" where
  "is_UnlockCE (UnlockCE u s) = True"
| "is_UnlockCE _ = False"

fun is_keystore_event :: "event \<Rightarrow> bool" where
  "is_keystore_event (Lookup Keystore2) = True"
| "is_keystore_event (KsGetKeyEntry a) = True"
| "is_keystore_event (KsCreateOperation a iv) = True"
| "is_keystore_event (KsFinish ct) = True"
| "is_keystore_event _ = False"

fun is_weaver_event :: "event \<Rightarrow> bool" where
  "is_weaver_event (Lookup Weaver) = True"
| "is_weaver_event WeaverGetKeySize = True"
| "is_weaver_event (WeaverVerify s k) = True"
| "is_weaver_event _ = False"

fun is_WeaverVerify :: "event \<Rightarrow> bool" where
  "is_WeaverVerify (WeaverVerify s k) = True"
| "is_WeaverVerify _ = False"

text \<open>The paths of secdis files, and the events that touch one.\<close>

definition is_secdis_path :: "string \<Rightarrow> bool" where
  "is_secdis_path p = suffix ''.secdis'' p"

fun touches_secdis :: "event \<Rightarrow> bool" where
  "touches_secdis (PathExists p) = is_secdis_path p"
| "touches_secdis (ReadFile p) = is_secdis_path p"
| "touches_secdis _ = False"

section \<open>Concrete worlds\<close>

text \<open>
  A little-endian host on which nothing exists and every service is absent; the worlds
  below change the fields they need.
\<close>

definition bare_world :: world where
  "bare_world =
     \<lparr>host_big_endian = False,
      uninit_password_token = replicate 32 (CHR 0xFF),
      malloc_ok = (\<lambda>n. n < 2 ^ 32),
      stat_size = (\<lambda>p. None),
      read_file = (\<lambda>p. None),
      getHandle = (\<lambda>u. ''abc''),
      getAlias = (\<lambda>h. ''synthetic_password_abc''),
      crypto_scrypt = (\<lambda>pw s N r p. Some (replicate 32 (CHR ''t''))),
      SHA512 = (\<lambda>x. replicate 64 (CHR ''h'')),
      SP800_108_HMAC_SHA256 = (\<lambda>k l c. replicate 32 (CHR ''k'')),
      HashPassword = (\<lambda>pw. replicate 128 (CHR ''p'')),
      aes_256_gcm_update = (\<lambda>k iv ct. ct),
      aes_256_gcm_final = (\<lambda>k iv ct tag. False),
      weaver_service = False,
      weaver_GetKeySize = None,
      weaver_WeaverVerify = (\<lambda>s k. None),
      gk_aidl_declared = False,
      gk_aidl_device = False,
      gk_aidl_verify = (\<lambda>u h t. \<lparr>statusCode = - 1, timeoutMs = 0, hardwareAuthToken = []\<rparr>),
      gk_hidl_device = False,
      gk_hidl_verify = (\<lambda>u h t. None),
      authorization_service = False,
      keystore_service = False,
      ks_getKeyEntry = (\<lambda>a. KeyNotFound),
      ks_createOperation = (\<lambda>ts a iv. False),
      ks_finish = (\<lambda>a iv ct. FinishFailed),
      fscrypt_unlock_ce_storage = (\<lambda>u s. False),
      fscrypt_prepare_user_storage = (\<lambda>u. False)\<rparr>"

text \<open>A \<open>.weaver\<close> file of exactly five bytes: version 1, slot 7.\<close>

definition weaver_file_5 :: bytes where
  "weaver_file_5 = [CHR 0x01, CHR 0x07, CHR 0x00, CHR 0x00, CHR 0x00]"

definition weaver_world_5 :: world where
  "weaver_world_5 =
     bare_world\<lparr>read_file := [''/data/system_de/0/spblob/abc.weaver'' \<mapsto> weaver_file_5]\<rparr>"

text \<open>The same with three more bytes after the slot.\<close>

definition weaver_file_8 :: bytes where
  "weaver_file_8 = [CHR 0x01, CHR 0x07, CHR 0x00, CHR 0x00, CHR 0x00, CHR 0x09, CHR 0x00, CHR 0x00]"

definition weaver_world_8 :: world where
  "weaver_world_8 =
     bare_world\<lparr>read_file := [''/data/system_de/0/spblob/abc.weaver'' \<mapsto> weaver_file_8]\<rparr>"

text \<open>
  A device of user 0 with a PIN, no weaver and the older gatekeeper interface, on which the
  unlock with the right PIN goes through. The \<open>.pwd\<close> file has type 3, scrypt exponents
  11, 3 and 1, the salt \<open>S\<close> and the handle \<open>H\<close>. The primitives are stand-ins that
  keep their inputs visible: the digest is the data after the 128 bytes of padded label,
  the cipher is the identity.
\<close>

definition pwd_file :: "char \<Rightarrow> bytes" where
  "pwd_file t = [CHR 0x00, CHR 0x00, CHR 0x00, t, CHR 0x0B, CHR 0x03, CHR 0x01,
                 CHR 0x00, CHR 0x00, CHR 0x00, CHR 0x01, CHR ''S'',
                 CHR 0x00, CHR 0x00, CHR 0x00, CHR 0x01, CHR ''H'']"

definition spblob_file :: "char \<Rightarrow> bytes" where
  "spblob_file v = [v, CHR 0x00] @ ''nonce-of-12b'' @ ''outer-ciphertext''"

definition keystore_plaintext :: bytes where
  "keystore_plaintext = ''inner-nonce.'' @ ''synthetic-password'' @ ''16-bytes-of-tag.''"

definition auth_token_69 :: bytes where
  "auth_token_69 = replicate 69 (CHR ''a'')"

definition pin_files :: "char \<Rightarrow> string \<Rightarrow> bytes option" where
  "pin_files v = [''/data/system_de/0/spblob/abc.pwd'' \<mapsto> pwd_file (CHR 0x03),
                  ''/data/system_de/0/spblob/abc.secdis'' \<mapsto> ''secdiscardable'',
                  ''/data/system_de/0/spblob/abc.spblob'' \<mapsto> spblob_file v]"

definition pin_stat :: "string \<Rightarrow> nat option" where
  "pin_stat = [''/data/system_de/0/spblob/'' \<mapsto> 4096,
               ''/data/system_de/0/spblob'' \<mapsto> 4096,
               ''/data/system_de/0/spblob/abc.pwd'' \<mapsto> 17,
               ''/data/system_de/0/spblob/abc.secdis'' \<mapsto> 14,
               ''/data/system_de/0/spblob/abc.spblob'' \<mapsto> 30]"

definition pin_world :: "char \<Rightarrow> world" where
  "pin_world v =
     bare_world\<lparr>stat_size := pin_stat, read_file := pin_files v,
       SHA512 := (\<lambda>x. take 64 (drop 128 x @ replicate 64 (CHR ''h''))),
       SP800_108_HMAC_SHA256 := (\<lambda>k l c. k @ l @ c),
       gk_hidl_device := True,
       gk_hidl_verify := (\<lambda>u h t. Some \<lparr>code = 0, timeout = 0, data = auth_token_69\<rparr>),
       authorization_service := True,
       keystore_service := True,
       ks_getKeyEntry := (\<lambda>a. KeyEntry),
       ks_createOperation := (\<lambda>ts a iv. ts \<noteq> []),
       ks_finish := (\<lambda>a iv ct. FinishOutput keystore_plaintext),
       fscrypt_unlock_ce_storage := (\<lambda>u s. True),
       fscrypt_prepare_user_storage := (\<lambda>u. True)\<rparr>"

text \<open>The application id and the key of the inner envelope on that device.\<close>

definition pin_application_id :: bytes where
  "pin_application_id =
     replicate 32 (CHR ''t'') @ ''secdiscardable'' @ replicate 50 (CHR ''h'')"

definition pin_inner_key :: bytes where
  "pin_inner_key = take 32 pin_application_id"

text \<open>The same device whose gatekeeper answers \<open>ERROR_GENERAL_FAILURE\<close> (-1).\<close>

definition hidl_incorrect_world :: world where
  "hidl_incorrect_world =
     (pin_world (CHR 0x02))\<lparr>gk_hidl_verify :=
        (\<lambda>u h t. Some \<lparr>code = - 1, timeout = 0, data = []\<rparr>)\<rparr>"

text \<open>The same device with the newer gatekeeper interface, answering -1.\<close>

definition aidl_incorrect_world :: world where
  "aidl_incorrect_world =
     (pin_world (CHR 0x02))\<lparr>gk_aidl_declared := True, gk_aidl_device := True\<rparr>"

text \<open>The same device whose \<open>.pwd\<close> file has the type 5.\<close>

definition other_type_world :: world where
  "other_type_world =
     (pin_world (CHR 0x02))\<lparr>read_file :=
        (pin_files (CHR 0x02))(''/data/system_de/0/spblob/abc.pwd'' \<mapsto> pwd_file (CHR 0x05))\<rparr>"

text \<open>
  A device with a weaver file (eight bytes, so that the read of the slot stays inside the
  buffer) and a weaver service whose key size is 32.
\<close>

definition weaver_world_key32 :: world where
  "weaver_world_key32 =
     (pin_world (CHR 0x03))\<lparr>
       stat_size := pin_stat(''/data/system_de/0/spblob/abc.weaver'' \<mapsto> 8),
       read_file := (pin_files (CHR 0x03))(''/data/system_de/0/spblob/abc.weaver'' \<mapsto> weaver_file_8),
       weaver_service := True,
       weaver_GetKeySize := Some 32,
       weaver_WeaverVerify := (\<lambda>s k. Some ''weaver-payload''),
       ks_createOperation := (\<lambda>ts a iv. True)\<rparr>"

text \<open>
  A directory in which \<open>abc.pwd\<close> exists and cannot be read, \<open>0abc.pwd\<close> can, there is
  no \<open>abc.weaver\<close> and \<open>0abc.weaver\<close> can be read.
\<close>

definition padded_world :: world where
  "padded_world =
     bare_world\<lparr>
       stat_size := [''/data/system_de/0/spblob/abc.pwd'' \<mapsto> 17,
                     ''/data/system_de/0/spblob/0abc.pwd'' \<mapsto> 17,
                     ''/data/system_de/0/spblob/0abc.weaver'' \<mapsto> 8],
       read_file := [''/data/system_de/0/spblob/0abc.pwd'' \<mapsto> pwd_file (CHR 0x03),
                     ''/data/system_de/0/spblob/0abc.weaver'' \<mapsto> weaver_file_8]\<rparr>"

text \<open>A directory in which the secdis file is there under the name \<open>00abc.secdis\<close> only.\<close>

definition padded_secdis_world :: world where
  "padded_secdis_world =
     bare_world\<lparr>
       stat_size := [''/data/system_de/0/spblob/00abc.secdis'' \<mapsto> 14],
       read_file := [''/data/system_de/0/spblob/00abc.secdis'' \<mapsto> ''secdiscardable'']\<rparr>"

text \<open>
  A directory without \<open>abc.spblob\<close> in which both zero-padded names can be read, with
  different content: a blob of version 5 under \<open>0abc.spblob\<close>, one of version 2 under
  \<open>00abc.spblob\<close>.
\<close>

definition both_padded_world :: world where
  "both_padded_world =
     bare_world\<lparr>
       stat_size := [''/data/system_de/0/spblob/0abc.spblob'' \<mapsto> 30,
                     ''/data/system_de/0/spblob/00abc.spblob'' \<mapsto> 30],
       read_file := [''/data/system_de/0/spblob/0abc.spblob'' \<mapsto> spblob_file (CHR 0x05),
                     ''/data/system_de/0/spblob/00abc.spblob'' \<mapsto> spblob_file (CHR 0x02)]\<rparr>"

text \<open>
  User 10 with a spblob directory of their own and a PIN, on a device where user 0 has no
  spblob directory.
\<close>

definition user10_world :: world where
  "user10_world =
     bare_world\<lparr>
       stat_size := [''/data/system_de/10/spblob/'' \<mapsto> 4096,
                     ''/data/system_de/10/spblob/abc.pwd'' \<mapsto> 17],
       read_file := [''/data/system_de/10/spblob/abc.pwd'' \<mapsto> pwd_file (CHR 0x03)]\<rparr>"

text \<open>
  For the two-run property: the weaver device with another secdis file and none that
  \<open>stat\<close> can see, and a weaver service put onto the PIN device.
\<close>

definition secdis_changed_files :: "string \<Rightarrow> bytes option" where
  "secdis_changed_files =
     (read_file weaver_world_key32)(''/data/system_de/0/spblob/abc.secdis'' \<mapsto> ''another-content'')"

definition secdis_changed_stat :: "string \<Rightarrow> nat option" where
  "secdis_changed_stat = (stat_size weaver_world_key32)(''/data/system_de/0/spblob/abc.secdis'' := None)"

definition present_weaver_verify :: "32 word \<Rightarrow> bytes \<Rightarrow> bytes option" where
  "present_weaver_verify s k = Some ''weaver-payload''"

section \<open>Properties\<close>

text \<open>The definitions that an evaluation on a concrete world unfolds.\<close>

lemmas model_defs = Decrypt_User_Synth_Pass_def synth_pass_token_def synth_pass_application_id_def
  synth_pass_secdis_def synth_pass_weaver_def synth_pass_gatekeeper_def gk_verify_aidl_def gk_verify_hidl_def
  add_auth_token_def unwrapSyntheticPasswordBlob_def unwrap_keystore_def unwrap_inner_def
  disk_decryption_secret_key_def Decrypt_CE_storage_def Get_Password_Data_def parse_password_data_def
  Get_Password_Token_def Get_Spblob_Data_def Get_Secdis_def Get_Weaver_Data_def Is_Weaver_def
  path_exists_def peek_def load_int_def word_le_def endianswap_def size_t_of_int_def
  PersonalizedHashBinary_def PersonalizedHash_def PersonalizedHashSP800_def Personalize_def pad_128_def
  hex_encode_def memcpy_front_def spblob_path_of_def format_d_def digits.simps fakeUid_def
  PERSONALISATION_APPLICATION_ID_def PERSONALIZATION_FBE_KEY_def PERSONALISATION_CONTEXT_def
  PERSONALISATION_SECDISCARDABLE_def PERSONALISATION_WEAVER_KEY_def PERSONALISATION_WEAVER_PASSWORD_def
  PERSONALIZATION_USER_GK_AUTH_def SHA512_DIGEST_LENGTH_def PASSWORD_TOKEN_SIZE_def
  STATUS_OK_def ERROR_RETRY_TIMEOUT_def HW_AUTH_TOKEN_SIZE_def
  SYNTHETIC_PASSWORD_VERSION_V1_def SYNTHETIC_PASSWORD_VERSION_V2_def SYNTHETIC_PASSWORD_VERSION_V3_def
  SYNTHETIC_PASSWORD_PASSWORD_BASED_def sizeof_int_def sizeof_unsigned_char_def NUL_def

lemmas world_defs = pin_world_def bare_world_def pwd_file_def spblob_file_def keystore_plaintext_def
  auth_token_69_def pin_files_def pin_stat_def pin_application_id_def weaver_world_key32_def
  weaver_file_8_def

subsection \<open>Small facts used throughout\<close>

lemma spblob_path_of_0: "spblob_path_of 0 = ''/data/system_de/0/spblob/''"
  by (simp add: spblob_path_of_def format_d_def digits.simps)

lemma fst_emit [simp]: "fst (emit evs m) = fst m"
  by (simp add: emit_def)

lemma snd_emit [simp]: "snd (emit evs m) = evs @ snd m"
  by (simp add: emit_def)

lemma emit_pair [simp]: "emit evs (r, evs') = (r, evs @ evs')"
  by (simp add: emit_def)

lemma and_then_Inl [simp]: "and_then (Inl e, evs) k = (Inl e, evs)"
  by (simp add: and_then_def)

lemma and_then_Inr [simp]: "and_then (Inr x, evs) k = emit evs (k x)"
  by (simp add: and_then_def)

lemma fail_pair [simp]: "fail e = (Inl e, [])"
  by (simp add: fail_def)

lemma ok_pair [simp]: "ok x = (Inr x, [])"
  by (simp add: ok_def)

lemma and_then_fst_Inr: "fst m = Inr x \<Longrightarrow> and_then m k = emit (snd m) (k x)"
  by (simp add: and_then_def)

lemma and_then_fst_Inl: "fst m = Inl e \<Longrightarrow> and_then m k = (Inl e, snd m)"
  by (simp add: and_then_def)

lemma list_ex_and_then:
  "list_ex P (snd (and_then m k)) =
     (list_ex P (snd m) \<or> (case fst m of Inl e \<Rightarrow> False | Inr x \<Rightarrow> list_ex P (snd (k x))))"
  by (auto simp: and_then_def split: sum.splits)

subsection \<open>No stage before the unwrap hands a secret to the CE unlock\<close>

lemma read_first_no_unlock [simp]: "list_ex is_UnlockCE (snd (read_first w fs)) = False"
  by (induction fs) (simp_all add: case_prod_beta split: option.splits)

lemma Get_Spblob_Data_no_unlock [simp]: "list_ex is_UnlockCE (snd (Get_Spblob_Data w p h s)) = False"
  by (simp add: Get_Spblob_Data_def Let_def case_prod_beta del: read_first.simps)

lemma Get_Password_Data_no_unlock [simp]: "list_ex is_UnlockCE (snd (Get_Password_Data w p h)) = False"
  by (simp add: Get_Password_Data_def case_prod_beta split: option.splits)

lemma synth_pass_token_no_unlock [simp]: "list_ex is_UnlockCE (snd (synth_pass_token w p h pw)) = False"
  by (simp add: synth_pass_token_def list_ex_and_then split: sum.splits)

lemma Get_Weaver_Data_no_unlock [simp]: "list_ex is_UnlockCE (snd (Get_Weaver_Data w p h)) = False"
  by (simp add: Get_Weaver_Data_def Let_def split: option.splits)

lemma synth_pass_weaver_no_unlock [simp]: "list_ex is_UnlockCE (snd (synth_pass_weaver w p h t)) = False"
  by (simp add: synth_pass_weaver_def list_ex_and_then split: sum.splits option.splits)

lemma gk_verify_aidl_no_unlock [simp]: "list_ex is_UnlockCE (snd (gk_verify_aidl w u pwd t)) = False"
  by (simp add: gk_verify_aidl_def Let_def split: option.splits)

lemma gk_verify_hidl_no_unlock [simp]: "list_ex is_UnlockCE (snd (gk_verify_hidl w u pwd t)) = False"
  by (simp add: gk_verify_hidl_def Let_def split: option.splits)

lemma add_auth_token_no_unlock [simp]: "list_ex is_UnlockCE (snd (add_auth_token w r)) = False"
  by (simp add: add_auth_token_def split: GKResponse.splits)

lemma synth_pass_gatekeeper_no_unlock [simp]: "list_ex is_UnlockCE (snd (synth_pass_gatekeeper w u pwd t)) = False"
  by (simp add: synth_pass_gatekeeper_def Let_def list_ex_and_then split: sum.splits)

lemma synth_pass_secdis_no_unlock [simp]: "list_ex is_UnlockCE (snd (synth_pass_secdis w u p h pw pwd t)) = False"
  by (simp add: synth_pass_secdis_def Get_Secdis_def Let_def list_ex_and_then case_prod_beta
      split: option.splits sum.splits)

lemma synth_pass_application_id_no_unlock [simp]:
  "list_ex is_UnlockCE (snd (synth_pass_application_id w u p h pw pwd t)) = False"
  by (simp add: synth_pass_application_id_def Is_Weaver_def Let_def list_ex_and_then split: sum.splits)

lemma unwrap_keystore_no_unlock [simp]: "list_ex is_UnlockCE (snd (unwrap_keystore w u ts d)) = False"
  by (simp add: unwrap_keystore_def Let_def split: key_entry_result.splits finish_result.splits)

lemma unwrap_no_unlock [simp]:
  "list_ex is_UnlockCE (snd (unwrapSyntheticPasswordBlob w p h u a ts)) = False"
  by (simp add: unwrapSyntheticPasswordBlob_def Let_def list_ex_and_then case_prod_beta
      split: option.splits sum.splits)

lemma filter_no_unlock: "list_ex is_UnlockCE evs = False \<Longrightarrow> filter is_UnlockCE evs = []"
  by (simp add: list_ex_iff filter_empty_conv)

subsection \<open>The weaver file\<close>

text \<open>
  Where the source reads the slot: the four bytes at offset 4 of the buffer (the file and
  its closing NUL), for any file long enough for the read to stay inside it.
\<close>

lemma Get_Weaver_Data_reads_offset_4:
  assumes "read_file w (spblob_path @ handle_str @ ''.weaver'') = Some weaver_data"
    and "7 \<le> length weaver_data"
  shows "fst (Get_Weaver_Data w spblob_path handle_str) =
           Inr \<lparr>version = of_char (weaver_data ! 0), slot = load_int w (take 4 (drop 4 (weaver_data @ [NUL])))\<rparr>"
  using assms
  by (simp add: Get_Weaver_Data_def peek_def sizeof_int_def sizeof_unsigned_char_def nth_append)

text \<open>
  C1. The specification has the slot in the four bytes after the version byte. On the
  five-byte file (version 1, slot 7) the source reads past the end of the buffer; on the
  same file followed by the bytes 09 00 00 it returns slot 0x900 where the specification
  has 7.
\<close>

theorem C1_weaver_slot_read_at_offset_4:
  "Get_Weaver_Data weaver_world_5 ''/data/system_de/0/spblob/'' ''abc''
     = (Inl UndefinedBehaviour, [ReadFile ''/data/system_de/0/spblob/abc.weaver''])
   \<and> fst (Get_Weaver_Data weaver_world_8 ''/data/system_de/0/spblob/'' ''abc'')
     = Inr \<lparr>version = 1, slot = 0x900\<rparr>
   \<and> weaver_data_as_specified weaver_world_8 weaver_file_8 = \<lparr>version = 1, slot = 7\<rparr>
   \<and> weaver_data_as_specified weaver_world_5 weaver_file_5 = \<lparr>version = 1, slot = 7\<rparr>"
  by (simp add: Get_Weaver_Data_def weaver_world_5_def weaver_world_8_def bare_world_def
      weaver_file_5_def weaver_file_8_def peek_def sizeof_int_def sizeof_unsigned_char_def
      load_int_def word_le_def weaver_data_as_specified_def NUL_def)

subsection \<open>The inner envelope\<close>

text \<open>
  The verdict of \<open>EVP_DecryptFinal_ex\<close> has no part in what the inner decrypt returns.
\<close>

lemma unwrap_inner_ignores_final:
  "unwrap_inner (w\<lparr>aes_256_gcm_final := f\<rparr>) application_id keystore_result
     = unwrap_inner w application_id keystore_result"
  by (simp add: unwrap_inner_def PersonalizedHashBinary_def Personalize_def Let_def)

text \<open>
  C2. The specification has the unlock fail with \<open>CryptoError\<close>, and no secret, when the
  tag of the inner envelope does not verify. On the device below no tag verifies under any
  key; the source still takes the bytes before the last 16 as the synthetic password, hands
  the secret derived from them to the CE unlock and returns true.
\<close>

theorem C2_tag_mismatch_not_detected:
  "aes_256_gcm_final (pin_world (CHR 0x02)) pin_inner_key ''inner-nonce.'' ''synthetic-password''
       ''16-bytes-of-tag.'' = False
   \<and> unwrap_inner (pin_world (CHR 0x02)) pin_application_id keystore_plaintext = Inr ''synthetic-password''
   \<and> fst (Decrypt_User_Synth_Pass (pin_world (CHR 0x02)) 0 ''1234'') = Inr ()
   \<and> UnlockCE 0 (PersonalizedHash (pin_world (CHR 0x02)) ''fbe-key'' ''synthetic-password'')
         \<in> set (snd (Decrypt_User_Synth_Pass (pin_world (CHR 0x02)) 0 ''1234''))"
  by (simp add: model_defs world_defs pin_inner_key_def Let_def)

subsection \<open>The header of the blob\<close>

lemma unwrap_invalid_header:
  assumes "fst (Get_Spblob_Data w spblob_path handle_str ''.spblob'') = Some spblob_data"
    and "(of_char ((spblob_data @ [NUL]) ! 0) :: 8 word) \<notin> {2, 3}
         \<or> (of_char ((spblob_data @ [NUL]) ! 1) :: 8 word) \<noteq> 0"
  shows "unwrapSyntheticPasswordBlob w spblob_path handle_str user_id application_id tokens
           = (Inl BlobCorrupt, StartThreadPool # snd (Get_Spblob_Data w spblob_path handle_str ''.spblob''))"
proof (cases "Get_Spblob_Data w spblob_path handle_str ''.spblob''")
  case (Pair r evs)
  with assms(1) have r: "r = Some spblob_data" by simp
  show ?thesis
  proof (cases spblob_data)
    case Nil
    then show ?thesis using Pair r
      by (simp add: unwrapSyntheticPasswordBlob_def peek_def NUL_def
          SYNTHETIC_PASSWORD_VERSION_V1_def SYNTHETIC_PASSWORD_VERSION_V2_def SYNTHETIC_PASSWORD_VERSION_V3_def)
  next
    case (Cons c cs)
    then show ?thesis using Pair r assms(2)
      by (auto simp: unwrapSyntheticPasswordBlob_def peek_def Let_def nth_append
          SYNTHETIC_PASSWORD_VERSION_V1_def SYNTHETIC_PASSWORD_VERSION_V2_def SYNTHETIC_PASSWORD_VERSION_V3_def
          SYNTHETIC_PASSWORD_PASSWORD_BASED_def)
  qed
qed

text \<open>
  C3. For every spblob whose version byte is not 2 or 3 (the legacy version 1 included) or
  whose type byte is not 0, the unwrap fails with \<open>BlobCorrupt\<close> after the file reads
  alone, the unlock fails and hands no secret to the CE unlock, and it fails with
  \<open>BlobCorrupt\<close> whenever the stages before the unwrap have passed. The bytes are read
  from the buffer of the string: the file followed by one NUL.
\<close>

theorem C3_invalid_header_is_BlobCorrupt:
  assumes "fst (Get_Spblob_Data w (spblob_path_of user_id) (getHandle w user_id) ''.spblob'') = Some spblob_data"
    and "(of_char ((spblob_data @ [NUL]) ! 0) :: 8 word) \<notin> {2, 3}
         \<or> (of_char ((spblob_data @ [NUL]) ! 1) :: 8 word) \<noteq> 0"
  shows "unwrapSyntheticPasswordBlob w (spblob_path_of user_id) (getHandle w user_id) user_id application_id tokens
           = (Inl BlobCorrupt,
              StartThreadPool # snd (Get_Spblob_Data w (spblob_path_of user_id) (getHandle w user_id) ''.spblob''))
     \<and> (\<exists>e. fst (Decrypt_User_Synth_Pass w user_id Password) = Inl e)
     \<and> \<not> list_ex is_UnlockCE (snd (Decrypt_User_Synth_Pass w user_id Password))
     \<and> (\<forall>pwd password_token aid toks.
           fst (synth_pass_token w (spblob_path_of user_id) (getHandle w user_id) Password)
             = Inr (pwd, password_token) \<longrightarrow>
           fst (synth_pass_application_id w user_id (spblob_path_of user_id) (getHandle w user_id)
                  Password pwd password_token) = Inr (aid, toks) \<longrightarrow>
           fst (Decrypt_User_Synth_Pass w user_id Password) = Inl BlobCorrupt)"
  using unwrap_invalid_header [OF assms]
  by (auto simp: Decrypt_User_Synth_Pass_def Let_def and_then_def list_ex_and_then case_prod_beta
      split: sum.splits)

text \<open>
  The witness of C3: the PIN device with a blob of version 5.
\<close>

theorem C3_invalid_header_is_BlobCorrupt_witness:
  "fst (Get_Spblob_Data (pin_world (CHR 0x05)) (spblob_path_of 0) ''abc'' ''.spblob'') = Some (spblob_file (CHR 0x05))
   \<and> Decrypt_User_Synth_Pass (pin_world (CHR 0x05)) 0 ''1234'' =
       (Inl BlobCorrupt,
        [PathExists ''/data/system_de/0/spblob/abc.pwd'',
         ReadFile ''/data/system_de/0/spblob/abc.pwd'',
         PathExists ''/data/system_de/0/spblob/abc.weaver'',
         PathExists ''/data/system_de/0/spblob/abc.secdis'',
         ReadFile ''/data/system_de/0/spblob/abc.secdis'',
         IsDeclared GatekeeperAidl, Lookup GatekeeperHidl,
         GkVerify 100000 ''H'' (replicate 32 (CHR ''t'') @ replicate 32 (CHR ''h'')),
         Lookup Authorization, AddAuthToken (replicate 69 (CHR ''a'')),
         StartThreadPool,
         PathExists ''/data/system_de/0/spblob/abc.spblob'',
         ReadFile ''/data/system_de/0/spblob/abc.spblob''])"
  using C3_invalid_header_is_BlobCorrupt [of "pin_world (CHR 0x05)" 0 "spblob_file (CHR 0x05)" "[]" "[]" "''1234''"]
  by (simp add: model_defs world_defs Let_def)

subsection \<open>The gatekeeper step\<close>

text \<open>
  The newer interface returns on an answer that is neither OK nor a retry.
\<close>

lemma gk_verify_aidl_incorrect:
  assumes "statusCode (gk_aidl_verify w (fakeUid user_id) (password_handle pwd) gk_pwd_token) < STATUS_OK"
    and "statusCode (gk_aidl_verify w (fakeUid user_id) (password_handle pwd) gk_pwd_token) \<noteq> ERROR_RETRY_TIMEOUT"
    and "0 < sint (handle_len pwd)"
    and "PersonalizedHashBinary w PERSONALIZATION_USER_GK_AUTH (take PASSWORD_TOKEN_SIZE password_token) = Some gk_pwd_token"
  shows "gk_verify_aidl w user_id pwd password_token =
           (Inl CredentialWrong, [GkVerify (fakeUid user_id) (password_handle pwd) gk_pwd_token])"
  using assms by (simp add: gk_verify_aidl_def Let_def)

lemma aidl_error_returns:
  "Decrypt_User_Synth_Pass aidl_incorrect_world 0 ''1234'' =
     (Inl CredentialWrong,
      [PathExists ''/data/system_de/0/spblob/abc.pwd'',
       ReadFile ''/data/system_de/0/spblob/abc.pwd'',
       PathExists ''/data/system_de/0/spblob/abc.weaver'',
       PathExists ''/data/system_de/0/spblob/abc.secdis'',
       ReadFile ''/data/system_de/0/spblob/abc.secdis'',
       IsDeclared GatekeeperAidl, Lookup GatekeeperAidl,
       GkVerify 100000 ''H'' (replicate 32 (CHR ''t'') @ replicate 32 (CHR ''h''))])
   \<and> \<not> list_ex is_keystore_event (snd (Decrypt_User_Synth_Pass aidl_incorrect_world 0 ''1234''))"
  by (simp add: model_defs world_defs aidl_incorrect_world_def Let_def)

text \<open>
  C4. The specification has the unlock return \<open>CredentialWrong\<close> with no keystore
  operation begun when the gatekeeper reports the credential incorrect. With the older
  interface answering -1, the source goes on to the unwrap: it gets the key entry and
  begins the keystore operation, and the failure it returns is that of the keystore.
\<close>

theorem C4_hidl_error_reaches_keystore:
  "Decrypt_User_Synth_Pass hidl_incorrect_world 0 ''1234'' =
     (Inl BeginOperationFailed,
      [PathExists ''/data/system_de/0/spblob/abc.pwd'',
       ReadFile ''/data/system_de/0/spblob/abc.pwd'',
       PathExists ''/data/system_de/0/spblob/abc.weaver'',
       PathExists ''/data/system_de/0/spblob/abc.secdis'',
       ReadFile ''/data/system_de/0/spblob/abc.secdis'',
       IsDeclared GatekeeperAidl, Lookup GatekeeperHidl,
       GkVerify 100000 ''H'' (replicate 32 (CHR ''t'') @ replicate 32 (CHR ''h'')),
       StartThreadPool,
       PathExists ''/data/system_de/0/spblob/abc.spblob'',
       ReadFile ''/data/system_de/0/spblob/abc.spblob'',
       Lookup Keystore2,
       KsGetKeyEntry ''synthetic_password_abc'',
       KsCreateOperation ''synthetic_password_abc'' ''nonce-of-12b''])
   \<and> gk_hidl_verify hidl_incorrect_world 100000 ''H'' (replicate 32 (CHR ''t'') @ replicate 32 (CHR ''h''))
       = Some \<lparr>code = - 1, timeout = 0, data = []\<rparr>
   \<and> list_ex is_keystore_event (snd (Decrypt_User_Synth_Pass hidl_incorrect_world 0 ''1234''))"
  by (simp add: model_defs world_defs hidl_incorrect_world_def Let_def)

subsection \<open>The default password token\<close>

lemma default_token_general:
  "fst (synth_pass_token w p h ''!'') =
     Inr (empty_password_data,
          ''default-password'' @ drop (length ''default-password'') (uninit_password_token w))"
  by (simp add: synth_pass_token_def memcpy_front_def)

text \<open>
  C5. The specification has the token of the default password padded with NUL bytes to 32
  bytes. The source copies the 16 characters into a local array it never initialised: where
  that array held 0xFF bytes, the last 16 bytes of the token are 0xFF.
\<close>

theorem C5_default_token_not_padded:
  "synth_pass_token bare_world ''/data/system_de/0/spblob/'' ''abc'' ''!''
     = (Inr (empty_password_data, ''default-password'' @ replicate 16 (CHR 0xFF)), [CopySqliteDb])
   \<and> ''default-password'' @ replicate 16 (CHR 0xFF) \<noteq> default_password_token_as_specified"
  by (simp add: synth_pass_token_def memcpy_front_def bare_world_def
      default_password_token_as_specified_def NUL_def)

subsection \<open>The FBE secret\<close>

text \<open>
  C6. When the stages before the unwrap have passed, the keystore has returned the inner
  envelope and the inner decrypt has yielded \<open>synthetic_password\<close>, the unwrap returns
  the hex-encoded \<open>Personalize("fbe-key", synthetic_password)\<close> for a blob of version 2
  and \<open>PersonalizeSP800("fbe-key", "fbe-key-context", synthetic_password)\<close> for version
  3, and that secret (the source goes on only if it is not empty) is the one handed to the
  CE unlock.
\<close>

theorem C6_fbe_secret_by_version:
  assumes tok: "fst (synth_pass_token w (spblob_path_of user_id) (getHandle w user_id) Password)
                  = Inr (pwd, password_token)"
    and aid: "fst (synth_pass_application_id w user_id (spblob_path_of user_id) (getHandle w user_id)
                     Password pwd password_token) = Inr (application_id, tokens)"
    and blob: "fst (Get_Spblob_Data w (spblob_path_of user_id) (getHandle w user_id) ''.spblob'')
                 = Some spblob_data"
    and ks: "fst (unwrap_keystore w user_id tokens spblob_data) = Inr keystore_result"
    and ver: "(of_char (spblob_data ! 0) :: 8 word) = 2 \<or> (of_char (spblob_data ! 0) :: 8 word) = 3"
    and type0: "(of_char (spblob_data ! 1) :: 8 word) = 0"
    and inner: "unwrap_inner w application_id keystore_result = Inr synthetic_password"
    and secret: "secret = (if (of_char (spblob_data ! 0) :: 8 word) = 2
                           then PersonalizedHash w ''fbe-key'' synthetic_password
                           else PersonalizedHashSP800 w ''fbe-key'' ''fbe-key-context'' synthetic_password)"
    and nonempty: "secret \<noteq> []"
  shows "fst (unwrapSyntheticPasswordBlob w (spblob_path_of user_id) (getHandle w user_id) user_id
                application_id tokens) = Inr secret
     \<and> filter is_UnlockCE (snd (Decrypt_User_Synth_Pass w user_id Password)) = [UnlockCE user_id secret]"
proof -
  let ?p = "spblob_path_of user_id" and ?h = "getHandle w user_id"
  from ks have len: "14 \<le> length spblob_data"
    by (auto simp: unwrap_keystore_def split: if_splits)
  have un: "fst (unwrapSyntheticPasswordBlob w ?p ?h user_id application_id tokens) = Inr secret"
    using blob ks ver type0 inner secret len
    by (cases "Get_Spblob_Data w ?p ?h ''.spblob''")
       (auto simp: unwrapSyntheticPasswordBlob_def peek_def Let_def nth_append and_then_fst_Inr
          disk_decryption_secret_key_def PERSONALIZATION_FBE_KEY_def PERSONALISATION_CONTEXT_def
          SYNTHETIC_PASSWORD_VERSION_V1_def SYNTHETIC_PASSWORD_VERSION_V2_def
          SYNTHETIC_PASSWORD_VERSION_V3_def SYNTHETIC_PASSWORD_PASSWORD_BASED_def)
  have ce: "filter is_UnlockCE (snd (Decrypt_CE_storage w user_id secret)) = [UnlockCE user_id secret]"
    by (simp add: Decrypt_CE_storage_def)
  have "Decrypt_User_Synth_Pass w user_id Password =
          emit (snd (synth_pass_token w ?p ?h Password)
                @ snd (synth_pass_application_id w user_id ?p ?h Password pwd password_token)
                @ snd (unwrapSyntheticPasswordBlob w ?p ?h user_id application_id tokens))
            (Decrypt_CE_storage w user_id secret)"
    using tok aid un nonempty
    by (simp add: Decrypt_User_Synth_Pass_def Let_def and_then_fst_Inr emit_def)
  then show ?thesis
    using un ce by (simp add: filter_no_unlock)
qed

text \<open>
  The witness of C6: the PIN device with a blob of version 2 and one of version 3.
\<close>

theorem C6_fbe_secret_by_version_witness:
  "filter is_UnlockCE (snd (Decrypt_User_Synth_Pass (pin_world (CHR 0x02)) 0 ''1234''))
     = [UnlockCE 0 (PersonalizedHash (pin_world (CHR 0x02)) ''fbe-key'' ''synthetic-password'')]
   \<and> filter is_UnlockCE (snd (Decrypt_User_Synth_Pass (pin_world (CHR 0x03)) 0 ''1234''))
     = [UnlockCE 0 (PersonalizedHashSP800 (pin_world (CHR 0x03)) ''fbe-key'' ''fbe-key-context'' ''synthetic-password'')]"
proof -
  have a: "filter is_UnlockCE (snd (Decrypt_User_Synth_Pass (pin_world v) 0 ''1234''))
     = [UnlockCE 0 (if (of_char v :: 8 word) = 2
                           then PersonalizedHash (pin_world v) ''fbe-key'' ''synthetic-password''
                           else PersonalizedHashSP800 (pin_world v) ''fbe-key'' ''fbe-key-context'' ''synthetic-password'')]"
    if "v = CHR 0x02 \<or> v = CHR 0x03" for v
  proof -
    have p: "spblob_path_of 0 = ''/data/system_de/0/spblob/''"
      by (rule spblob_path_of_0)
    have h: "getHandle (pin_world v) 0 = ''abc''"
      by (simp add: world_defs)
    have pwd: "parse_password_data (pin_world v) (pwd_file (CHR 0x03)) =
        Inr \<lparr>password_type = 3, scryptN = 11, scryptR = 3, scryptP = 1, salt_len = 1, salt = ''S'',
             handle_len = 1, password_handle = ''H''\<rparr>"
      by (simp add: model_defs world_defs Let_def)
    show ?thesis
      using that
      by (intro conjunct2 [OF C6_fbe_secret_by_version [where w = "pin_world v" and user_id = 0
            and pwd = "\<lparr>password_type = 3, scryptN = 11, scryptR = 3, scryptP = 1, salt_len = 1,
                        salt = ''S'', handle_len = 1, password_handle = ''H''\<rparr>"
            and password_token = "replicate 32 (CHR ''t'')"
            and application_id = pin_application_id and tokens = "[auth_token_69]"
            and spblob_data = "spblob_file v" and keystore_result = keystore_plaintext
            and synthetic_password = "''synthetic-password''"]])
         (auto simp: model_defs world_defs Let_def)
  qed
  from a [of "CHR 0x02"] a [of "CHR 0x03"] show ?thesis by simp
qed

subsection \<open>Resolving the files\<close>

lemma fst_read_first: "fst (read_first w fs) = first_readable w fs"
  by (induction fs) (simp_all add: case_prod_beta split: option.splits)

lemma Get_Spblob_Data_resolution:
  "fst (Get_Spblob_Data w p h sfx) = artifact_as_amended w p h sfx"
  by (simp add: Get_Spblob_Data_def artifact_as_amended_def Let_def case_prod_beta fst_read_first
      del: read_first.simps first_readable.simps)

text \<open>
  The unwrap is the read of the \<open>.spblob\<close> file followed by the work on its content.
\<close>

lemma unwrap_after_read:
  "unwrapSyntheticPasswordBlob w p h user_id application_id tokens =
     emit [StartThreadPool]
       (case Get_Spblob_Data w p h ''.spblob'' of
          (None, evs) \<Rightarrow> (Inl BlobMissing, evs)
        | (Some spblob_data, evs) \<Rightarrow>
            emit evs (unwrap_spblob_data w user_id application_id tokens spblob_data))"
  unfolding unwrapSyntheticPasswordBlob_def unwrap_spblob_data_def
  by (rule refl)

lemma unwrap_uses_resolved_content:
  "fst (unwrapSyntheticPasswordBlob w p h user_id application_id tokens) =
     (case artifact_as_amended w p h ''.spblob'' of
        None \<Rightarrow> Inl BlobMissing
      | Some spblob_data \<Rightarrow> fst (unwrap_spblob_data w user_id application_id tokens spblob_data))"
  using Get_Spblob_Data_resolution [of w p h "''.spblob''"]
  by (cases "Get_Spblob_Data w p h ''.spblob''") (auto simp: unwrap_after_read split: option.splits)

text \<open>
  The counterexample of C7. In the directory below \<open>0abc.pwd\<close> is the first readable
  candidate and the source finds no password data, because \<open>abc.pwd\<close> exists and
  cannot be read; and \<open>0abc.weaver\<close> is readable while \<open>Is_Weaver\<close> and
  \<open>Get_Weaver_Data\<close> look at \<open>abc.weaver\<close> alone.
\<close>

theorem C7_counterexample:
  "artifact_as_specified padded_world ''/data/system_de/0/spblob/'' ''abc'' ''.pwd'' = Some (pwd_file (CHR 0x03))
   \<and> fst (Get_Spblob_Data padded_world ''/data/system_de/0/spblob/'' ''abc'' ''.pwd'') = None
   \<and> fst (Get_Password_Data padded_world ''/data/system_de/0/spblob/'' ''abc'') = Inl BlobMissing
   \<and> artifact_as_specified padded_world ''/data/system_de/0/spblob/'' ''abc'' ''.weaver'' = Some weaver_file_8
   \<and> fst (Is_Weaver padded_world ''/data/system_de/0/spblob/'' ''abc'') = False
   \<and> fst (Get_Weaver_Data padded_world ''/data/system_de/0/spblob/'' ''abc'') = Inl BlobMissing"
  by (simp add: model_defs world_defs padded_world_def artifact_as_specified_def Let_def)

text \<open>
  C7, amended. The reads of \<open>.pwd\<close>, \<open>.secdis\<close> and \<open>.spblob\<close> resolve the
  file by existence: when the plain name exists it alone is read, and the artifact is found
  if and only if that read succeeds; when it does not exist, the name with one zero in
  front and then the name with two are tried and the first readable one wins. So the first
  readable of the three candidates wins whenever the plain name is readable exactly when it
  exists, and an artifact that is there under a zero-padded name only is found. The content
  each reader works on is that of the file so resolved: the password data is parsed from it,
  the secdis data is it, and the unwrap does lines 498 to 632 on it.
\<close>

theorem C7_resolution_by_existence:
  "fst (Get_Password_Data w p h) =
     (case artifact_as_amended w p h ''.pwd'' of
        None \<Rightarrow> Inl BlobMissing | Some d \<Rightarrow> parse_password_data w d)
   \<and> fst (Get_Secdis w p h) = artifact_as_amended w p h ''.secdis''
   \<and> (fst (unwrapSyntheticPasswordBlob w p h user_id application_id tokens) = Inl BlobMissing
        \<longleftrightarrow> artifact_as_amended w p h ''.spblob'' = None)
   \<and> (\<forall>sfx. (path_exists w (p @ h @ sfx) \<longleftrightarrow> read_file w (p @ h @ sfx) \<noteq> None) \<longrightarrow>
         artifact_as_amended w p h sfx = artifact_as_specified w p h sfx)
   \<and> (\<forall>sfx d. \<not> path_exists w (p @ h @ sfx) \<longrightarrow>
         first_readable w [p @ ''0'' @ h @ sfx, p @ ''00'' @ h @ sfx] = Some d \<longrightarrow>
         artifact_as_amended w p h sfx = Some d)
   \<and> (\<forall>sfx. fst (Get_Spblob_Data w p h sfx) = artifact_as_amended w p h sfx)
   \<and> fst (unwrapSyntheticPasswordBlob w p h user_id application_id tokens) =
       (case artifact_as_amended w p h ''.spblob'' of
          None \<Rightarrow> Inl BlobMissing
        | Some spblob_data \<Rightarrow> fst (unwrap_spblob_data w user_id application_id tokens spblob_data))
   \<and> unwrapSyntheticPasswordBlob w p h user_id application_id tokens =
       emit [StartThreadPool]
         (case Get_Spblob_Data w p h ''.spblob'' of
            (None, evs) \<Rightarrow> (Inl BlobMissing, evs)
          | (Some spblob_data, evs) \<Rightarrow>
              emit evs (unwrap_spblob_data w user_id application_id tokens spblob_data))"
proof -
  have f: "\<forall>sfx. fst (Get_Spblob_Data w p h sfx) = artifact_as_amended w p h sfx"
    by (simp add: Get_Spblob_Data_resolution)
  note g = unwrap_uses_resolved_content [of w p h user_id application_id tokens]
  note i = unwrap_after_read [of w p h user_id application_id tokens]
  have a: "fst (Get_Password_Data w p h) =
     (case artifact_as_amended w p h ''.pwd'' of
        None \<Rightarrow> Inl BlobMissing | Some d \<Rightarrow> parse_password_data w d)"
    using Get_Spblob_Data_resolution [of w p h "''.pwd''"]
    by (cases "Get_Spblob_Data w p h ''.pwd''") (auto simp: Get_Password_Data_def split: option.splits)
  have b: "fst (Get_Secdis w p h) = artifact_as_amended w p h ''.secdis''"
    by (simp add: Get_Secdis_def Get_Spblob_Data_resolution)
  have inner: "unwrap_inner w application_id k \<noteq> Inl BlobMissing" for k
    by (simp add: unwrap_inner_def Let_def split: option.splits)
  have c: "fst (unwrapSyntheticPasswordBlob w p h user_id application_id tokens) = Inl BlobMissing
        \<longleftrightarrow> artifact_as_amended w p h ''.spblob'' = None"
    using Get_Spblob_Data_resolution [of w p h "''.spblob''"] inner
    by (cases "Get_Spblob_Data w p h ''.spblob''")
       (auto simp: unwrapSyntheticPasswordBlob_def unwrap_keystore_def Let_def and_then_def
          split: option.splits sum.splits if_splits key_entry_result.splits finish_result.splits)
  have d: "\<forall>sfx. (path_exists w (p @ h @ sfx) \<longleftrightarrow> read_file w (p @ h @ sfx) \<noteq> None) \<longrightarrow>
         artifact_as_amended w p h sfx = artifact_as_specified w p h sfx"
    by (auto simp: artifact_as_amended_def artifact_as_specified_def split: option.splits)
  have e: "\<forall>sfx d. \<not> path_exists w (p @ h @ sfx) \<longrightarrow>
         first_readable w [p @ ''0'' @ h @ sfx, p @ ''00'' @ h @ sfx] = Some d \<longrightarrow>
         artifact_as_amended w p h sfx = Some d"
    by (simp add: artifact_as_amended_def del: first_readable.simps)
  show ?thesis
    by (intro conjI) (rule a b c d e f g i)+
qed

text \<open>
  The witness of C7: the secdis file under the name \<open>00abc.secdis\<close> only; and the
  directory in which both zero-padded blobs can be read, where the unwrap works on the
  content of \<open>0abc.spblob\<close> (version 5, so \<open>BlobCorrupt\<close>) and not on that of
  \<open>00abc.spblob\<close> (version 2, which would go on to the keystore).
\<close>

theorem C7_resolution_by_existence_witness:
  "\<not> path_exists padded_secdis_world ''/data/system_de/0/spblob/abc.secdis''
   \<and> fst (Get_Secdis padded_secdis_world ''/data/system_de/0/spblob/'' ''abc'') = Some ''secdiscardable''
   \<and> artifact_as_specified padded_secdis_world ''/data/system_de/0/spblob/'' ''abc'' ''.secdis''
       = Some ''secdiscardable''
   \<and> fst (Get_Spblob_Data both_padded_world ''/data/system_de/0/spblob/'' ''abc'' ''.spblob'')
       = Some (spblob_file (CHR 0x05))
   \<and> unwrapSyntheticPasswordBlob both_padded_world ''/data/system_de/0/spblob/'' ''abc'' 0 [] []
       = (Inl BlobCorrupt,
          [StartThreadPool,
           PathExists ''/data/system_de/0/spblob/abc.spblob'',
           ReadFile ''/data/system_de/0/spblob/0abc.spblob''])
   \<and> unwrap_spblob_data both_padded_world 0 [] [] (spblob_file (CHR 0x02))
       = (Inl UndefinedBehaviour, [Lookup Keystore2])"
proof -
  have a: "artifact_as_amended both_padded_world ''/data/system_de/0/spblob/'' ''abc'' ''.spblob''
             = Some (spblob_file (CHR 0x05))"
    by (simp add: artifact_as_amended_def path_exists_def both_padded_world_def bare_world_def)
  have b: "Get_Spblob_Data both_padded_world ''/data/system_de/0/spblob/'' ''abc'' ''.spblob''
             = (Some (spblob_file (CHR 0x05)),
                [PathExists ''/data/system_de/0/spblob/abc.spblob'',
                 ReadFile ''/data/system_de/0/spblob/0abc.spblob''])"
    by (simp add: Get_Spblob_Data_def path_exists_def both_padded_world_def bare_world_def)
  have c: "unwrap_spblob_data both_padded_world 0 [] [] (spblob_file (CHR 0x05)) = (Inl BlobCorrupt, [])"
    by (simp add: unwrap_spblob_data_def model_defs spblob_file_def)
  have d: "unwrap_spblob_data both_padded_world 0 [] [] (spblob_file (CHR 0x02))
             = (Inl UndefinedBehaviour, [Lookup Keystore2])"
    by (simp add: unwrap_spblob_data_def model_defs spblob_file_def both_padded_world_def bare_world_def
        Let_def)
  have e: "\<not> path_exists padded_secdis_world ''/data/system_de/0/spblob/abc.secdis''
     \<and> artifact_as_amended padded_secdis_world ''/data/system_de/0/spblob/'' ''abc'' ''.secdis''
         = Some ''secdiscardable''
     \<and> artifact_as_specified padded_secdis_world ''/data/system_de/0/spblob/'' ''abc'' ''.secdis''
         = Some ''secdiscardable''"
    by (simp add: artifact_as_amended_def artifact_as_specified_def path_exists_def
        padded_secdis_world_def bare_world_def)
  show ?thesis
    using C7_resolution_by_existence [of padded_secdis_world "''/data/system_de/0/spblob/''" "''abc''" 0 "[]" "[]"]
      C7_resolution_by_existence [of both_padded_world "''/data/system_de/0/spblob/''" "''abc''" 0 "[]" "[]"]
      a b c d e
    by simp
qed

subsection \<open>The weaver key size\<close>

text \<open>
  The counterexample of C8: the weaver service reports a key size of 32, the weaver key has
  64 bytes, and the verify operation is called with it.
\<close>

theorem C8_key_size_not_compared_counterexample:
  "weaver_GetKeySize weaver_world_key32 = Some 32
   \<and> PersonalizedHashBinary weaver_world_key32 PERSONALISATION_WEAVER_KEY (replicate 32 (CHR ''t''))
       = Some (replicate 32 (CHR ''t'') @ replicate 32 (CHR ''h''))
   \<and> length (replicate 32 (CHR ''t'') @ replicate 32 (CHR ''h'')) = 64
   \<and> WeaverVerify 0x900 (replicate 32 (CHR ''t'') @ replicate 32 (CHR ''h''))
        \<in> set (snd (Decrypt_User_Synth_Pass weaver_world_key32 0 ''1234''))
   \<and> list_ex is_WeaverVerify (snd (Decrypt_User_Synth_Pass weaver_world_key32 0 ''1234''))"
  by (simp add: model_defs world_defs Let_def)

text \<open>
  C8, amended. On the weaver path the source asks the weaver service for its key size
  before the verify operation and does not call verify when that query fails; when the
  query succeeds, verify is called with the slot and the 64-byte weaver key whatever size
  was reported.
\<close>

theorem C8_key_size_queried_before_verify:
  assumes "fst (Get_Weaver_Data w spblob_path handle_str) = Inr wd"
    and "PersonalizedHashBinary w PERSONALISATION_WEAVER_KEY (take PASSWORD_TOKEN_SIZE password_token) = Some weaver_key"
    and "weaver_service w"
  shows "snd (synth_pass_weaver w spblob_path handle_str password_token) =
           snd (Get_Weaver_Data w spblob_path handle_str) @ [Lookup Weaver, WeaverGetKeySize]
           @ (case weaver_GetKeySize w of None \<Rightarrow> [] | Some n \<Rightarrow> [WeaverVerify (slot wd) weaver_key])
         \<and> (weaver_GetKeySize w = None \<longrightarrow>
              fst (synth_pass_weaver w spblob_path handle_str password_token) = Inl HardwareUnavailable)"
  using assms
  by (cases "Get_Weaver_Data w spblob_path handle_str")
     (auto simp: synth_pass_weaver_def split: option.splits)

text \<open>
  The witness of C8: the weaver device with key size 32, and the same with a key size
  query that fails.
\<close>

theorem C8_key_size_queried_before_verify_witness:
  "snd (synth_pass_weaver weaver_world_key32 ''/data/system_de/0/spblob/'' ''abc'' (replicate 32 (CHR ''t'')))
     = [ReadFile ''/data/system_de/0/spblob/abc.weaver'', Lookup Weaver, WeaverGetKeySize,
        WeaverVerify 0x900 (replicate 32 (CHR ''t'') @ replicate 32 (CHR ''h''))]
   \<and> synth_pass_weaver (weaver_world_key32\<lparr>weaver_GetKeySize := None\<rparr>) ''/data/system_de/0/spblob/'' ''abc''
        (replicate 32 (CHR ''t''))
     = (Inl HardwareUnavailable,
        [ReadFile ''/data/system_de/0/spblob/abc.weaver'', Lookup Weaver, WeaverGetKeySize])"
  using C8_key_size_queried_before_verify [of weaver_world_key32 "''/data/system_de/0/spblob/''" "''abc''"
      "\<lparr>version = 1, slot = 0x900\<rparr>" "replicate 32 (CHR ''t'')" "replicate 32 (CHR ''t'') @ replicate 32 (CHR ''h'')"]
    C8_key_size_queried_before_verify [of "weaver_world_key32\<lparr>weaver_GetKeySize := None\<rparr>" "''/data/system_de/0/spblob/''" "''abc''"
      "\<lparr>version = 1, slot = 0x900\<rparr>" "replicate 32 (CHR ''t'')" "replicate 32 (CHR ''t'') @ replicate 32 (CHR ''h'')"]
  by (simp add: model_defs world_defs Let_def)

subsection \<open>Choosing the method in \<open>Decrypt_User\<close>\<close>

text \<open>
  The counterexample of C10: the spblob directory of user 0 exists, the credential is not
  the default one and the synthetic-password method would unlock the user, but the
  \<open>.pwd\<close> file has a type that \<open>Get_Password_Type\<close> maps to 0 and
  \<open>Decrypt_User\<close> returns false before it looks at the directory.
\<close>

theorem C10_unknown_type_counterexample:
  "path_exists other_type_world ''/data/system_de/0/spblob''
   \<and> fst (Decrypt_User_Synth_Pass other_type_world 0 ''1234'') = Inr ()
   \<and> Decrypt_User other_type_world 0 ''1234'' =
       (Inl UnknownPasswordType,
        [PathExists ''/data/system_de/0/spblob/'',
         PathExists ''/data/system_de/0/spblob/abc.pwd'',
         ReadFile ''/data/system_de/0/spblob/abc.pwd''])"
  by (simp add: model_defs Get_Password_Type_def Decrypt_User_def Decrypt_User_legacy_def world_defs other_type_world_def Let_def)

text \<open>
  C10, amended. For every credential other than the default one: a user id above 9999
  returns false at once; a user id up to 9999 for which \<open>Get_Password_Type\<close> gives 0
  returns false before any method is chosen; otherwise \<open>Decrypt_User\<close> runs the
  synthetic-password method if and only if \<open>/data/system_de/0/spblob\<close> exists, whatever
  the user id, and the legacy flow over the gatekeeper key file when it does not.
\<close>

theorem C10_method_by_user0_directory:
  assumes "Password \<noteq> ''!''"
  shows "(9999 < user_id \<longrightarrow> Decrypt_User w user_id Password = (Inl UserIdTooBig, []))
     \<and> (user_id \<le> 9999 \<longrightarrow> Get_Password_Type w user_id '''' = (Inr (t, filename), evs) \<longrightarrow> t \<noteq> 0 \<longrightarrow>
          Decrypt_User w user_id Password =
            emit (evs @ [PathExists ''/data/system_de/0/spblob''])
              (if path_exists w ''/data/system_de/0/spblob''
               then Decrypt_User_Synth_Pass w user_id Password
               else Decrypt_User_legacy w user_id Password filename))
     \<and> (user_id \<le> 9999 \<longrightarrow> Get_Password_Type w user_id '''' = (Inr (0, filename), evs) \<longrightarrow>
          Decrypt_User w user_id Password = (Inl UnknownPasswordType, evs))"
  using assms by (auto simp: Decrypt_User_def emit_def)

text \<open>
  The witness of C10: user id 10000; user 0 of the PIN device; user 10 with a spblob
  directory of their own where user 0 has none; and the device whose type is 5.
\<close>

theorem C10_method_by_user0_directory_witness:
  "Decrypt_User (pin_world (CHR 0x02)) 10000 ''1234'' = (Inl UserIdTooBig, [])
   \<and> Decrypt_User (pin_world (CHR 0x02)) 0 ''1234'' =
       emit [PathExists ''/data/system_de/0/spblob/'',
             PathExists ''/data/system_de/0/spblob/abc.pwd'',
             ReadFile ''/data/system_de/0/spblob/abc.pwd'',
             PathExists ''/data/system_de/0/spblob'']
         (Decrypt_User_Synth_Pass (pin_world (CHR 0x02)) 0 ''1234'')
   \<and> Decrypt_User user10_world 10 ''1234'' =
       emit [PathExists ''/data/system_de/10/spblob/'',
             PathExists ''/data/system_de/10/spblob/abc.pwd'',
             ReadFile ''/data/system_de/10/spblob/abc.pwd'',
             PathExists ''/data/system_de/0/spblob'']
         (Decrypt_User_legacy user10_world 10 ''1234'' '''')
   \<and> Decrypt_User other_type_world 0 ''1234'' =
       (Inl UnknownPasswordType,
        [PathExists ''/data/system_de/0/spblob/'',
         PathExists ''/data/system_de/0/spblob/abc.pwd'',
         ReadFile ''/data/system_de/0/spblob/abc.pwd''])"
proof -
  have pw: "''1234'' \<noteq> ''!''" by simp
  have g1: "Get_Password_Type (pin_world (CHR 0x02)) 0 '''' =
      (Inr (3, ''''), [PathExists ''/data/system_de/0/spblob/'',
             PathExists ''/data/system_de/0/spblob/abc.pwd'',
             ReadFile ''/data/system_de/0/spblob/abc.pwd''])"
    by (simp add: model_defs Get_Password_Type_def Decrypt_User_def Decrypt_User_legacy_def world_defs other_type_world_def user10_world_def Let_def)
  have g2: "Get_Password_Type user10_world 10 '''' =
      (Inr (3, ''''), [PathExists ''/data/system_de/10/spblob/'',
             PathExists ''/data/system_de/10/spblob/abc.pwd'',
             ReadFile ''/data/system_de/10/spblob/abc.pwd''])"
    by (simp add: model_defs Get_Password_Type_def Decrypt_User_def Decrypt_User_legacy_def world_defs other_type_world_def user10_world_def Let_def)
  have g3: "Get_Password_Type other_type_world 0 '''' =
      (Inr (0, ''''), [PathExists ''/data/system_de/0/spblob/'',
             PathExists ''/data/system_de/0/spblob/abc.pwd'',
             ReadFile ''/data/system_de/0/spblob/abc.pwd''])"
    by (simp add: model_defs Get_Password_Type_def Decrypt_User_def Decrypt_User_legacy_def world_defs other_type_world_def user10_world_def Let_def)
  have e1: "path_exists (pin_world (CHR 0x02)) ''/data/system_de/0/spblob''"
    by (simp add: path_exists_def world_defs other_type_world_def user10_world_def)
  have e2: "\<not> path_exists user10_world ''/data/system_de/0/spblob''"
    by (simp add: path_exists_def world_defs other_type_world_def user10_world_def)
  show ?thesis
    using C10_method_by_user0_directory [OF pw, where user_id = 10000 and w = "pin_world (CHR 0x02)"]
      C10_method_by_user0_directory [OF pw, where user_id = 0 and w = "pin_world (CHR 0x02)" and t = 3
        and filename = "[]" and evs = "[PathExists ''/data/system_de/0/spblob/'',
             PathExists ''/data/system_de/0/spblob/abc.pwd'',
             ReadFile ''/data/system_de/0/spblob/abc.pwd'']"]
      C10_method_by_user0_directory [OF pw, where user_id = 10 and w = user10_world and t = 3
        and filename = "[]" and evs = "[PathExists ''/data/system_de/10/spblob/'',
             PathExists ''/data/system_de/10/spblob/abc.pwd'',
             ReadFile ''/data/system_de/10/spblob/abc.pwd'']"]
      C10_method_by_user0_directory [OF pw, where user_id = 0 and w = other_type_world
        and filename = "[]" and evs = "[PathExists ''/data/system_de/0/spblob/'',
             PathExists ''/data/system_de/0/spblob/abc.pwd'',
             ReadFile ''/data/system_de/0/spblob/abc.pwd'']"]
      g1 g2 g3 e1 e2
    by simp
qed

subsection \<open>The two paths\<close>

text \<open>No function of the unlock reads a field of the weaver service off the weaver path.\<close>

lemmas full_congs = if_cong option.case_cong sum.case_cong prod.case_cong key_entry_result.case_cong
  finish_result.case_cong GKResponse.case_cong

lemma sel_ws [simp]:
  "host_big_endian (with_weaver_service w a b c) = host_big_endian w"
  "uninit_password_token (with_weaver_service w a b c) = uninit_password_token w"
  "malloc_ok (with_weaver_service w a b c) = malloc_ok w"
  "stat_size (with_weaver_service w a b c) = stat_size w"
  "read_file (with_weaver_service w a b c) = read_file w"
  "getHandle (with_weaver_service w a b c) = getHandle w"
  "getAlias (with_weaver_service w a b c) = getAlias w"
  "crypto_scrypt (with_weaver_service w a b c) = crypto_scrypt w"
  "SHA512 (with_weaver_service w a b c) = SHA512 w"
  "SP800_108_HMAC_SHA256 (with_weaver_service w a b c) = SP800_108_HMAC_SHA256 w"
  "aes_256_gcm_update (with_weaver_service w a b c) = aes_256_gcm_update w"
  "gk_aidl_declared (with_weaver_service w a b c) = gk_aidl_declared w"
  "gk_aidl_device (with_weaver_service w a b c) = gk_aidl_device w"
  "gk_aidl_verify (with_weaver_service w a b c) = gk_aidl_verify w"
  "gk_hidl_device (with_weaver_service w a b c) = gk_hidl_device w"
  "gk_hidl_verify (with_weaver_service w a b c) = gk_hidl_verify w"
  "authorization_service (with_weaver_service w a b c) = authorization_service w"
  "keystore_service (with_weaver_service w a b c) = keystore_service w"
  "ks_getKeyEntry (with_weaver_service w a b c) = ks_getKeyEntry w"
  "ks_createOperation (with_weaver_service w a b c) = ks_createOperation w"
  "ks_finish (with_weaver_service w a b c) = ks_finish w"
  "fscrypt_unlock_ce_storage (with_weaver_service w a b c) = fscrypt_unlock_ce_storage w"
  "fscrypt_prepare_user_storage (with_weaver_service w a b c) = fscrypt_prepare_user_storage w"
  by (simp_all add: with_weaver_service_def)

lemma read_first_ws [simp]: "read_first (with_weaver_service w a b c) fs = read_first w fs"
  by (induction fs) (simp_all cong: full_congs)

lemma Get_Spblob_Data_ws [simp]:
  "Get_Spblob_Data (with_weaver_service w a b c) p h s = Get_Spblob_Data w p h s"
  by (simp add: Get_Spblob_Data_def path_exists_def Let_def del: read_first.simps cong: full_congs)

lemma parse_password_data_ws [simp]:
  "parse_password_data (with_weaver_service w a b c) d = parse_password_data w d"
  by (simp add: parse_password_data_def load_int_def Let_def cong: full_congs)

lemma Get_Password_Data_ws [simp]:
  "Get_Password_Data (with_weaver_service w a b c) p h = Get_Password_Data w p h"
  by (simp add: Get_Password_Data_def cong: full_congs)

lemma Get_Password_Token_ws [simp]:
  "Get_Password_Token (with_weaver_service w a b c) pwd pw = Get_Password_Token w pwd pw"
  by (simp add: Get_Password_Token_def Let_def cong: full_congs)

lemma synth_pass_token_ws [simp]:
  "synth_pass_token (with_weaver_service w a b c) p h pw = synth_pass_token w p h pw"
  by (simp add: synth_pass_token_def cong: full_congs)

lemma PersonalizedHashBinary_ws [simp]:
  "PersonalizedHashBinary (with_weaver_service w a b c) l d = PersonalizedHashBinary w l d"
  by (simp add: PersonalizedHashBinary_def Personalize_def)

lemma gk_verify_aidl_ws [simp]:
  "gk_verify_aidl (with_weaver_service w a b c) u pwd t = gk_verify_aidl w u pwd t"
  by (simp add: gk_verify_aidl_def Let_def cong: full_congs)

lemma gk_verify_hidl_ws [simp]:
  "gk_verify_hidl (with_weaver_service w a b c) u pwd t = gk_verify_hidl w u pwd t"
  by (simp add: gk_verify_hidl_def Let_def cong: full_congs)

lemma add_auth_token_ws [simp]:
  "add_auth_token (with_weaver_service w a b c) r = add_auth_token w r"
  by (simp add: add_auth_token_def cong: full_congs)

lemma synth_pass_gatekeeper_ws [simp]:
  "synth_pass_gatekeeper (with_weaver_service w a b c) u pwd t = synth_pass_gatekeeper w u pwd t"
proof -
  have "add_auth_token (with_weaver_service w a b c) = add_auth_token w"
    by (rule ext) simp
  then show ?thesis
    by (simp add: synth_pass_gatekeeper_def Let_def cong: full_congs)
qed

lemma synth_pass_secdis_ws [simp]:
  "synth_pass_secdis (with_weaver_service w a b c) u p h pw pwd t = synth_pass_secdis w u p h pw pwd t"
  by (simp add: synth_pass_secdis_def Get_Secdis_def Let_def cong: full_congs)

lemma unwrap_keystore_ws [simp]:
  "unwrap_keystore (with_weaver_service w a b c) u ts d = unwrap_keystore w u ts d"
  by (simp add: unwrap_keystore_def Let_def cong: full_congs)

lemma unwrap_inner_ws [simp]:
  "unwrap_inner (with_weaver_service w a b c) aid k = unwrap_inner w aid k"
  by (simp add: unwrap_inner_def Let_def cong: full_congs)

lemma disk_decryption_secret_key_ws [simp]:
  "disk_decryption_secret_key (with_weaver_service w a b c) v k = disk_decryption_secret_key w v k"
  by (simp add: disk_decryption_secret_key_def PersonalizedHash_def PersonalizedHashSP800_def Personalize_def)

lemma unwrap_ws [simp]:
  "unwrapSyntheticPasswordBlob (with_weaver_service w a b c) p h u aid ts
     = unwrapSyntheticPasswordBlob w p h u aid ts"
  by (simp add: unwrapSyntheticPasswordBlob_def Let_def cong: full_congs)

lemma Decrypt_CE_storage_ws [simp]:
  "Decrypt_CE_storage (with_weaver_service w a b c) u s = Decrypt_CE_storage w u s"
  by (simp add: Decrypt_CE_storage_def cong: full_congs)

lemma weaver_service_unused:
  assumes "\<not> path_exists w (spblob_path_of user_id @ getHandle w user_id @ ''.weaver'')"
  shows "Decrypt_User_Synth_Pass (with_weaver_service w a b c) user_id Password
           = Decrypt_User_Synth_Pass w user_id Password"
  using assms
  by (simp add: Decrypt_User_Synth_Pass_def synth_pass_application_id_def Is_Weaver_def path_exists_def
      Let_def cong: full_congs)

text \<open>No function of the weaver path looks at a path that ends in \<open>.secdis\<close>.\<close>

lemma sel_wf [simp]:
  "host_big_endian (with_files w rf ss) = host_big_endian w"
  "uninit_password_token (with_files w rf ss) = uninit_password_token w"
  "malloc_ok (with_files w rf ss) = malloc_ok w"
  "stat_size (with_files w rf ss) = ss"
  "read_file (with_files w rf ss) = rf"
  "getHandle (with_files w rf ss) = getHandle w"
  "getAlias (with_files w rf ss) = getAlias w"
  "crypto_scrypt (with_files w rf ss) = crypto_scrypt w"
  "SHA512 (with_files w rf ss) = SHA512 w"
  "SP800_108_HMAC_SHA256 (with_files w rf ss) = SP800_108_HMAC_SHA256 w"
  "aes_256_gcm_update (with_files w rf ss) = aes_256_gcm_update w"
  "weaver_service (with_files w rf ss) = weaver_service w"
  "weaver_GetKeySize (with_files w rf ss) = weaver_GetKeySize w"
  "weaver_WeaverVerify (with_files w rf ss) = weaver_WeaverVerify w"
  "keystore_service (with_files w rf ss) = keystore_service w"
  "ks_getKeyEntry (with_files w rf ss) = ks_getKeyEntry w"
  "ks_createOperation (with_files w rf ss) = ks_createOperation w"
  "ks_finish (with_files w rf ss) = ks_finish w"
  "fscrypt_unlock_ce_storage (with_files w rf ss) = fscrypt_unlock_ce_storage w"
  "fscrypt_prepare_user_storage (with_files w rf ss) = fscrypt_prepare_user_storage w"
  by (simp_all add: with_files_def)

lemma not_secdis_pwd [simp]: "\<not> is_secdis_path (x @ ''.pwd'')"
  by (auto simp: is_secdis_path_def suffix_def)

lemma not_secdis_spblob [simp]: "\<not> is_secdis_path (x @ ''.spblob'')"
  by (auto simp: is_secdis_path_def suffix_def)

lemma not_secdis_weaver [simp]: "\<not> is_secdis_path (x @ ''.weaver'')"
  by (auto simp: is_secdis_path_def suffix_def)

lemma read_first_wf:
  assumes "\<forall>p. \<not> is_secdis_path p \<longrightarrow> rf p = read_file w p \<and> ss p = stat_size w p"
    and "\<forall>f \<in> set fs. \<not> is_secdis_path f"
  shows "read_first (with_files w rf ss) fs = read_first w fs"
  using assms(2)
proof (induction fs)
  case Nil
  then show ?case by simp
next
  case (Cons f fs)
  then have "rf f = read_file w f" using assms(1) by simp
  with Cons show ?case by (simp cong: full_congs)
qed

lemma Get_Spblob_Data_wf:
  assumes "\<forall>p. \<not> is_secdis_path p \<longrightarrow> rf p = read_file w p \<and> ss p = stat_size w p"
    and "\<And>x. \<not> is_secdis_path (x @ s)"
  shows "Get_Spblob_Data (with_files w rf ss) p h s = Get_Spblob_Data w p h s"
proof -
  have a: "\<not> is_secdis_path (p @ h @ s)" "\<not> is_secdis_path (p @ ''0'' @ h @ s)"
    "\<not> is_secdis_path (p @ ''00'' @ h @ s)"
    using assms(2) [of "p @ h"] assms(2) [of "p @ ''0'' @ h"] assms(2) [of "p @ ''00'' @ h"] by simp_all
  then have b: "rf (p @ h @ s) = read_file w (p @ h @ s)" "ss (p @ h @ s) = stat_size w (p @ h @ s)"
    using assms(1) by simp_all
  have c: "read_first (with_files w rf ss) [p @ ''0'' @ h @ s, p @ ''00'' @ h @ s]
             = read_first w [p @ ''0'' @ h @ s, p @ ''00'' @ h @ s]"
    using a by (intro read_first_wf [OF assms(1)]) simp
  show ?thesis
    using b c by (simp add: Get_Spblob_Data_def path_exists_def Let_def del: read_first.simps)
qed

lemma parse_password_data_wf [simp]:
  "parse_password_data (with_files w rf ss) d = parse_password_data w d"
  by (simp add: parse_password_data_def load_int_def Let_def cong: full_congs)

lemma Get_Password_Token_wf [simp]:
  "Get_Password_Token (with_files w rf ss) pwd pw = Get_Password_Token w pwd pw"
  by (simp add: Get_Password_Token_def Let_def cong: full_congs)

lemma PersonalizedHashBinary_wf [simp]:
  "PersonalizedHashBinary (with_files w rf ss) l d = PersonalizedHashBinary w l d"
  by (simp add: PersonalizedHashBinary_def Personalize_def)

lemma unwrap_keystore_wf [simp]:
  "unwrap_keystore (with_files w rf ss) u ts d = unwrap_keystore w u ts d"
  by (simp add: unwrap_keystore_def Let_def cong: full_congs)

lemma unwrap_inner_wf [simp]:
  "unwrap_inner (with_files w rf ss) aid k = unwrap_inner w aid k"
  by (simp add: unwrap_inner_def Let_def cong: full_congs)

lemma disk_decryption_secret_key_wf [simp]:
  "disk_decryption_secret_key (with_files w rf ss) v k = disk_decryption_secret_key w v k"
  by (simp add: disk_decryption_secret_key_def PersonalizedHash_def PersonalizedHashSP800_def Personalize_def)

lemma Decrypt_CE_storage_wf [simp]:
  "Decrypt_CE_storage (with_files w rf ss) u s = Decrypt_CE_storage w u s"
  by (simp add: Decrypt_CE_storage_def cong: full_congs)

lemma secdis_content_unused:
  assumes weaver: "path_exists w (spblob_path_of user_id @ getHandle w user_id @ ''.weaver'')"
    and agree: "\<forall>p. \<not> is_secdis_path p \<longrightarrow> rf p = read_file w p \<and> ss p = stat_size w p"
  shows "Decrypt_User_Synth_Pass (with_files w rf ss) user_id Password
           = Decrypt_User_Synth_Pass w user_id Password"
proof -
  let ?p = "spblob_path_of user_id" and ?h = "getHandle w user_id" and ?w = "with_files w rf ss"
  have f: "rf (?p @ ?h @ ''.weaver'') = read_file w (?p @ ?h @ ''.weaver'')"
      "ss (?p @ ?h @ ''.weaver'') = stat_size w (?p @ ?h @ ''.weaver'')"
    using agree not_secdis_weaver [of "?p @ ?h"] by simp_all
  have tok: "synth_pass_token ?w ?p ?h Password = synth_pass_token w ?p ?h Password"
    by (simp add: synth_pass_token_def Get_Password_Data_def Get_Spblob_Data_wf [OF agree] cong: full_congs)
  have wd: "Get_Weaver_Data ?w ?p ?h = Get_Weaver_Data w ?p ?h"
    using f by (simp add: Get_Weaver_Data_def Let_def load_int_def cong: full_congs)
  have wv: "synth_pass_weaver ?w ?p ?h t = synth_pass_weaver w ?p ?h t" for t
    by (simp add: synth_pass_weaver_def wd cong: full_congs)
  have isw: "Is_Weaver ?w ?p ?h = (True, [PathExists (?p @ ?h @ ''.weaver'')])"
      "Is_Weaver w ?p ?h = (True, [PathExists (?p @ ?h @ ''.weaver'')])"
    using weaver f by (simp_all add: Is_Weaver_def path_exists_def)
  have aid: "synth_pass_application_id ?w user_id ?p ?h Password pwd t
               = synth_pass_application_id w user_id ?p ?h Password pwd t" for pwd t
    by (simp add: synth_pass_application_id_def isw wv)
  have un: "unwrapSyntheticPasswordBlob ?w ?p ?h user_id a ts
              = unwrapSyntheticPasswordBlob w ?p ?h user_id a ts" for a ts
    by (simp add: unwrapSyntheticPasswordBlob_def Get_Spblob_Data_wf [OF agree] Let_def cong: full_congs)
  show ?thesis
    by (simp add: Decrypt_User_Synth_Pass_def tok aid un Let_def cong: full_congs)
qed

lemma read_first_no_secdis:
  "\<forall>f \<in> set fs. \<not> is_secdis_path f \<Longrightarrow> list_ex touches_secdis (snd (read_first w fs)) = False"
  by (induction fs) (simp_all add: case_prod_beta split: option.splits)

lemma Get_Spblob_Data_no_secdis:
  assumes "\<And>x. \<not> is_secdis_path (x @ s)"
  shows "list_ex touches_secdis (snd (Get_Spblob_Data w p h s)) = False"
proof -
  have a: "\<not> is_secdis_path (p @ h @ s)" "\<not> is_secdis_path (p @ ''0'' @ h @ s)"
    "\<not> is_secdis_path (p @ ''00'' @ h @ s)"
    using assms [of "p @ h"] assms [of "p @ ''0'' @ h"] assms [of "p @ ''00'' @ h"] by simp_all
  then have "list_ex touches_secdis (snd (read_first w [p @ ''0'' @ h @ s, p @ ''00'' @ h @ s])) = False"
    by (intro read_first_no_secdis) simp
  with a show ?thesis
    by (simp add: Get_Spblob_Data_def Let_def case_prod_beta del: read_first.simps)
qed

lemma synth_pass_token_no_secdis [simp]:
  "list_ex touches_secdis (snd (synth_pass_token w p h pw)) = False"
  by (simp add: synth_pass_token_def Get_Password_Data_def list_ex_and_then case_prod_beta
      Get_Spblob_Data_no_secdis split: sum.splits option.splits)

lemma synth_pass_weaver_no_secdis [simp]:
  "list_ex touches_secdis (snd (synth_pass_weaver w p h t)) = False"
  using not_secdis_weaver [of "p @ h"]
  by (simp add: synth_pass_weaver_def Get_Weaver_Data_def Let_def list_ex_and_then
      split: sum.splits option.splits)

lemma unwrap_keystore_no_secdis [simp]: "list_ex touches_secdis (snd (unwrap_keystore w u ts d)) = False"
  by (simp add: unwrap_keystore_def Let_def split: key_entry_result.splits finish_result.splits)

lemma unwrap_no_secdis [simp]:
  "list_ex touches_secdis (snd (unwrapSyntheticPasswordBlob w p h u a ts)) = False"
  by (simp add: unwrapSyntheticPasswordBlob_def Let_def list_ex_and_then case_prod_beta
      Get_Spblob_Data_no_secdis split: option.splits sum.splits)

lemma Decrypt_CE_storage_no_secdis [simp]:
  "list_ex touches_secdis (snd (Decrypt_CE_storage w u s)) = False"
  by (simp add: Decrypt_CE_storage_def)

lemma weaver_path_no_secdis:
  assumes "path_exists w (spblob_path_of user_id @ getHandle w user_id @ ''.weaver'')"
  shows "list_ex touches_secdis (snd (Decrypt_User_Synth_Pass w user_id Password)) = False"
  using assms not_secdis_weaver [of "spblob_path_of user_id @ getHandle w user_id"]
  by (simp add: Decrypt_User_Synth_Pass_def synth_pass_application_id_def Is_Weaver_def Let_def
      list_ex_and_then case_prod_beta split: sum.splits)

lemma read_first_no_weaver [simp]: "list_ex is_weaver_event (snd (read_first w fs)) = False"
  by (induction fs) (simp_all add: case_prod_beta split: option.splits)

lemma Get_Spblob_Data_no_weaver [simp]: "list_ex is_weaver_event (snd (Get_Spblob_Data w p h s)) = False"
  by (simp add: Get_Spblob_Data_def Let_def case_prod_beta del: read_first.simps)

lemma synth_pass_token_no_weaver [simp]: "list_ex is_weaver_event (snd (synth_pass_token w p h pw)) = False"
  by (simp add: synth_pass_token_def Get_Password_Data_def list_ex_and_then case_prod_beta
      split: sum.splits option.splits)

lemma gk_verify_aidl_no_weaver [simp]: "list_ex is_weaver_event (snd (gk_verify_aidl w u pwd t)) = False"
  by (simp add: gk_verify_aidl_def Let_def split: option.splits)

lemma gk_verify_hidl_no_weaver [simp]: "list_ex is_weaver_event (snd (gk_verify_hidl w u pwd t)) = False"
  by (simp add: gk_verify_hidl_def Let_def split: option.splits)

lemma add_auth_token_no_weaver [simp]: "list_ex is_weaver_event (snd (add_auth_token w r)) = False"
  by (simp add: add_auth_token_def split: GKResponse.splits)

lemma synth_pass_gatekeeper_no_weaver [simp]:
  "list_ex is_weaver_event (snd (synth_pass_gatekeeper w u pwd t)) = False"
  by (simp add: synth_pass_gatekeeper_def Let_def list_ex_and_then split: sum.splits)

lemma synth_pass_secdis_no_weaver [simp]:
  "list_ex is_weaver_event (snd (synth_pass_secdis w u p h pw pwd t)) = False"
  by (simp add: synth_pass_secdis_def Get_Secdis_def Let_def list_ex_and_then case_prod_beta
      split: option.splits sum.splits)

lemma unwrap_keystore_no_weaver [simp]: "list_ex is_weaver_event (snd (unwrap_keystore w u ts d)) = False"
  by (simp add: unwrap_keystore_def Let_def split: key_entry_result.splits finish_result.splits)

lemma unwrap_no_weaver [simp]:
  "list_ex is_weaver_event (snd (unwrapSyntheticPasswordBlob w p h u a ts)) = False"
  by (simp add: unwrapSyntheticPasswordBlob_def Let_def list_ex_and_then case_prod_beta
      split: option.splits sum.splits)

lemma Decrypt_CE_storage_no_weaver [simp]:
  "list_ex is_weaver_event (snd (Decrypt_CE_storage w u s)) = False"
  by (simp add: Decrypt_CE_storage_def)

lemma secdis_path_no_weaver:
  assumes "\<not> path_exists w (spblob_path_of user_id @ getHandle w user_id @ ''.weaver'')"
  shows "list_ex is_weaver_event (snd (Decrypt_User_Synth_Pass w user_id Password)) = False"
  using assms
  by (simp add: Decrypt_User_Synth_Pass_def synth_pass_application_id_def Is_Weaver_def Let_def
      list_ex_and_then case_prod_beta split: sum.splits)

text \<open>The same for the entry point \<open>Decrypt_User\<close>.\<close>

lemma sel_ws2 [simp]:
  "HashPassword (with_weaver_service w a b c) = HashPassword w"
  by (simp add: with_weaver_service_def)

lemma sel_wf2 [simp]:
  "HashPassword (with_files w rf ss) = HashPassword w"
  "gk_hidl_device (with_files w rf ss) = gk_hidl_device w"
  "gk_hidl_verify (with_files w rf ss) = gk_hidl_verify w"
  by (simp_all add: with_files_def)

lemma Get_Password_Type_ws [simp]:
  "Get_Password_Type (with_weaver_service w a b c) u fn = Get_Password_Type w u fn"
  by (simp add: Get_Password_Type_def path_exists_def Let_def cong: full_congs nat.case_cong error.case_cong)

lemma Decrypt_User_legacy_ws [simp]:
  "Decrypt_User_legacy (with_weaver_service w a b c) u pw fn = Decrypt_User_legacy w u pw fn"
  by (simp add: Decrypt_User_legacy_def cong: full_congs)

lemma Decrypt_User_weaver_service_unused:
  assumes "\<not> path_exists w (spblob_path_of user_id @ getHandle w user_id @ ''.weaver'')"
  shows "Decrypt_User (with_weaver_service w a b c) user_id Password = Decrypt_User w user_id Password"
  using weaver_service_unused [OF assms, of a b c]
  by (simp add: Decrypt_User_def path_exists_def Let_def cong: full_congs)

lemma not_secdis_slash [simp]: "\<not> is_secdis_path (x @ ''/'')"
  by (auto simp: is_secdis_path_def suffix_def)

lemma not_secdis_key [simp]: "\<not> is_secdis_path (x @ ''.key'')"
  by (auto simp: is_secdis_path_def suffix_def)

lemma not_secdis_empty [simp]: "\<not> is_secdis_path []"
  by (simp add: is_secdis_path_def)

lemma not_secdis_spblob_path [simp]: "\<not> is_secdis_path (spblob_path_of u)"
  using not_secdis_slash [of "''/data/system_de/'' @ format_d u @ ''/spblob''"]
  by (simp add: spblob_path_of_def)

lemma not_secdis_user0_dir [simp]: "\<not> is_secdis_path ''/data/system_de/0/spblob''"
  using not_secdis_spblob [of "''/data/system_de/0/''"]
  by (auto simp: is_secdis_path_def suffix_def)

lemma Get_Password_Type_filename:
  "fst (Get_Password_Type w u []) = Inr (t, fn) \<Longrightarrow> \<not> is_secdis_path fn"
  using not_secdis_key [of "''/data/system/'' @ ''gatekeeper.password''"]
    not_secdis_key [of "''/data/system/'' @ ''gatekeeper.pattern''"]
    not_secdis_key [of "''/data/system/users/'' @ format_d u @ ''/'' @ ''gatekeeper.password''"]
    not_secdis_key [of "''/data/system/users/'' @ format_d u @ ''/'' @ ''gatekeeper.pattern''"]
  by (auto simp: Get_Password_Type_def Let_def case_prod_beta
      split: if_splits option.splits sum.splits error.splits nat.splits)

lemma Get_Password_Data_wf:
  assumes "\<forall>p. \<not> is_secdis_path p \<longrightarrow> rf p = read_file w p \<and> ss p = stat_size w p"
  shows "Get_Password_Data (with_files w rf ss) p h = Get_Password_Data w p h"
  by (simp add: Get_Password_Data_def Get_Spblob_Data_wf [OF assms] cong: full_congs)

lemma Get_Password_Type_wf:
  assumes "\<forall>p. \<not> is_secdis_path p \<longrightarrow> rf p = read_file w p \<and> ss p = stat_size w p"
  shows "Get_Password_Type (with_files w rf ss) u fn = Get_Password_Type w u fn"
proof -
  have a: "ss (spblob_path_of u) = stat_size w (spblob_path_of u)"
    using assms by simp
  have b: "ss (x @ ''gatekeeper.password.key'') = stat_size w (x @ ''gatekeeper.password.key'')"
    "ss (x @ ''gatekeeper.pattern.key'') = stat_size w (x @ ''gatekeeper.pattern.key'')" for x
    using assms not_secdis_key [of "x @ ''gatekeeper.password''"] not_secdis_key [of "x @ ''gatekeeper.pattern''"]
    by simp_all
  have c: "ss ''/data/system/gatekeeper.password.key'' = stat_size w ''/data/system/gatekeeper.password.key''"
    "ss ''/data/system/gatekeeper.pattern.key'' = stat_size w ''/data/system/gatekeeper.pattern.key''"
    using b [of "''/data/system/''"] by simp_all
  have d: "ss (''/data/system/users/'' @ format_d u @ ''/gatekeeper.password.key'')
             = stat_size w (''/data/system/users/'' @ format_d u @ ''/gatekeeper.password.key'')"
    "ss (''/data/system/users/'' @ format_d u @ ''/gatekeeper.pattern.key'')
             = stat_size w (''/data/system/users/'' @ format_d u @ ''/gatekeeper.pattern.key'')"
    using b [of "''/data/system/users/'' @ format_d u @ ''/''"] by simp_all
  show ?thesis
    by (simp add: Get_Password_Type_def path_exists_def Let_def a c d [simplified] Get_Password_Data_wf [OF assms]
        cong: full_congs nat.case_cong error.case_cong)
qed

lemma Decrypt_User_legacy_wf:
  assumes "\<forall>p. \<not> is_secdis_path p \<longrightarrow> rf p = read_file w p \<and> ss p = stat_size w p"
    and "\<not> is_secdis_path fn"
  shows "Decrypt_User_legacy (with_files w rf ss) u pw fn = Decrypt_User_legacy w u pw fn"
proof -
  have "rf fn = read_file w fn" "ss fn = stat_size w fn"
    using assms by simp_all
  then show ?thesis
    by (simp add: Decrypt_User_legacy_def cong: full_congs)
qed

lemma Decrypt_User_secdis_content_unused:
  assumes weaver: "path_exists w (spblob_path_of user_id @ getHandle w user_id @ ''.weaver'')"
    and agree: "\<forall>p. \<not> is_secdis_path p \<longrightarrow> rf p = read_file w p \<and> ss p = stat_size w p"
  shows "Decrypt_User (with_files w rf ss) user_id Password = Decrypt_User w user_id Password"
proof (cases "Get_Password_Type w user_id []")
  case (Pair r evs)
  have d: "ss ''/data/system_de/0/spblob'' = stat_size w ''/data/system_de/0/spblob''"
    using agree by simp
  show ?thesis
  proof (cases r)
    case (Inl e)
    with Pair show ?thesis
      by (simp add: Decrypt_User_def Get_Password_Type_wf [OF agree])
  next
    case (Inr x)
    obtain t fn where x: "x = (t, fn)" by (cases x)
    with Pair Inr have "\<not> is_secdis_path fn"
      using Get_Password_Type_filename [of w user_id t fn] by simp
    then have "Decrypt_User_legacy (with_files w rf ss) user_id Password fn
                 = Decrypt_User_legacy w user_id Password fn"
      by (rule Decrypt_User_legacy_wf [OF agree])
    with Pair Inr x show ?thesis
      using secdis_content_unused [OF weaver agree, of Password]
      by (simp add: Decrypt_User_def Get_Password_Type_wf [OF agree] path_exists_def d Let_def
          cong: full_congs)
  qed
qed

text \<open>
  C9. Two runs of the unlock (of \<open>Decrypt_User_Synth_Pass\<close>, and of the entry point
  \<open>Decrypt_User\<close>) give the same result and the same trace when they differ only
  in the files whose names end in \<open>.secdis\<close> (their content and their existence) and
  the \<open>.weaver\<close> file of the handle exists: no event of the run touches such a file. And
  when the \<open>.weaver\<close> file does not exist, two runs that differ only in the weaver
  service (its presence, its key size, its answers) give the same result and trace: no
  event of the run is a call to the weaver service.
\<close>

theorem C9_path_determinism:
  "(path_exists w (spblob_path_of user_id @ getHandle w user_id @ ''.weaver'') \<longrightarrow>
      (\<forall>p. \<not> is_secdis_path p \<longrightarrow> rf p = read_file w p \<and> ss p = stat_size w p) \<longrightarrow>
      Decrypt_User_Synth_Pass (with_files w rf ss) user_id Password
        = Decrypt_User_Synth_Pass w user_id Password
      \<and> Decrypt_User (with_files w rf ss) user_id Password = Decrypt_User w user_id Password
      \<and> \<not> list_ex touches_secdis (snd (Decrypt_User_Synth_Pass w user_id Password)))
   \<and> (\<not> path_exists w (spblob_path_of user_id @ getHandle w user_id @ ''.weaver'') \<longrightarrow>
      Decrypt_User_Synth_Pass (with_weaver_service w a b c) user_id Password
        = Decrypt_User_Synth_Pass w user_id Password
      \<and> Decrypt_User (with_weaver_service w a b c) user_id Password = Decrypt_User w user_id Password
      \<and> \<not> list_ex is_weaver_event (snd (Decrypt_User_Synth_Pass w user_id Password)))"
  using secdis_content_unused [of w user_id rf ss Password] weaver_path_no_secdis [of w user_id Password]
    weaver_service_unused [of w user_id a b c Password] secdis_path_no_weaver [of w user_id Password]
    Decrypt_User_secdis_content_unused [of w user_id rf ss Password]
    Decrypt_User_weaver_service_unused [of w user_id a b c Password]
  by blast

text \<open>
  The witness of C9: the weaver device against the same with another secdis file, and the
  PIN device against the same with a weaver service.
\<close>

theorem C9_path_determinism_witness:
  "Decrypt_User_Synth_Pass (with_files weaver_world_key32 secdis_changed_files secdis_changed_stat) 0 ''1234''
     = Decrypt_User_Synth_Pass weaver_world_key32 0 ''1234''
   \<and> read_file (with_files weaver_world_key32 secdis_changed_files secdis_changed_stat)
         ''/data/system_de/0/spblob/abc.secdis''
       \<noteq> read_file weaver_world_key32 ''/data/system_de/0/spblob/abc.secdis''
   \<and> Decrypt_User_Synth_Pass
         (with_weaver_service (pin_world (CHR 0x02)) True (Some 64) present_weaver_verify) 0 ''1234''
     = Decrypt_User_Synth_Pass (pin_world (CHR 0x02)) 0 ''1234''
   \<and> Decrypt_User (with_files weaver_world_key32 secdis_changed_files secdis_changed_stat) 0 ''1234''
     = Decrypt_User weaver_world_key32 0 ''1234''
   \<and> Decrypt_User (with_weaver_service (pin_world (CHR 0x02)) True (Some 64) present_weaver_verify) 0 ''1234''
     = Decrypt_User (pin_world (CHR 0x02)) 0 ''1234''"
proof -
  have s: "is_secdis_path ''/data/system_de/0/spblob/abc.secdis''"
    unfolding is_secdis_path_def by (rule suffixI [of _ "''/data/system_de/0/spblob/abc''"]) simp
  have agree: "\<forall>p. \<not> is_secdis_path p \<longrightarrow>
      secdis_changed_files p = read_file weaver_world_key32 p
      \<and> secdis_changed_stat p = stat_size weaver_world_key32 p"
    using s by (auto simp: secdis_changed_files_def secdis_changed_stat_def)
  have w1: "path_exists weaver_world_key32 (spblob_path_of 0 @ getHandle weaver_world_key32 0 @ ''.weaver'')"
    by (simp add: path_exists_def spblob_path_of_0 world_defs secdis_changed_files_def secdis_changed_stat_def with_files_def)
  have w2: "\<not> path_exists (pin_world (CHR 0x02))
               (spblob_path_of 0 @ getHandle (pin_world (CHR 0x02)) 0 @ ''.weaver'')"
    by (simp add: path_exists_def spblob_path_of_0 world_defs secdis_changed_files_def secdis_changed_stat_def with_files_def)
  have d: "read_file (with_files weaver_world_key32 secdis_changed_files secdis_changed_stat)
         ''/data/system_de/0/spblob/abc.secdis''
       \<noteq> read_file weaver_world_key32 ''/data/system_de/0/spblob/abc.secdis''"
    by (simp add: world_defs secdis_changed_files_def secdis_changed_stat_def with_files_def)
  show ?thesis
    using C9_path_determinism [of weaver_world_key32 0 secdis_changed_files secdis_changed_stat "''1234''"]
      C9_path_determinism [of "pin_world (CHR 0x02)" 0 _ _ "''1234''" True "Some 64" present_weaver_verify]
      agree w1 w2 d
    by simp
qed

end
